theory Spec2Isabelle
  imports Complex_Main
begin

section \<open>Python values\<close>

text \<open>
  The values \<^verbatim>\<open>resp.json()\<close> can return, as a datatype. A Python \<^verbatim>\<open>str\<close> is modelled
  by its UTF-8 encoding (a \<^typ>\<open>string\<close>): emptiness and equality, the only things the
  program looks at, are the same on both sides. \<open>JNull\<close> is Python's \<^verbatim>\<open>None\<close>. A
  \<open>JObj\<close> holds the items of the parsed \<^verbatim>\<open>dict\<close>, whose keys are distinct; \<open>JFloat\<close>
  holds the finite floats.
\<close>

datatype json =
    JNull
  | JBool bool
  | JInt int
  | JFloat real
  | JStr string
  | JArr "json list"
  | JObj "(string \<times> json) list"

text \<open>The exceptions the program can meet, each with the text \<^verbatim>\<open>str(e)\<close> gives.\<close>

datatype exn =
    ValueError string
  | TypeError string
  | AttributeError string
  | DatabaseError string

fun str_exn :: "exn \<Rightarrow> string" where
  "str_exn (ValueError m) = m"
| "str_exn (TypeError m) = m"
| "str_exn (AttributeError m) = m"
| "str_exn (DatabaseError m) = m"

fun py_type_name :: "json \<Rightarrow> string" where
  "py_type_name JNull = ''NoneType''"
| "py_type_name (JBool b) = ''bool''"
| "py_type_name (JInt i) = ''int''"
| "py_type_name (JFloat x) = ''float''"
| "py_type_name (JStr s) = ''str''"
| "py_type_name (JArr xs) = ''list''"
| "py_type_name (JObj kvs) = ''dict''"

definition quoted :: "string \<Rightarrow> string" where
  "quoted s = CHR 0x27 # s @ [CHR 0x27]"

text \<open>\<^verbatim>\<open>len(data)\<close>: defined on strings, lists and dicts, a \<^verbatim>\<open>TypeError\<close> elsewhere.\<close>

fun py_len :: "json \<Rightarrow> exn + nat" where
  "py_len (JStr s) = Inr (length s)"
| "py_len (JArr xs) = Inr (length xs)"
| "py_len (JObj kvs) = Inr (length kvs)"
| "py_len v = Inl (TypeError (''object of type '' @ quoted (py_type_name v) @ '' has no len()''))"

text \<open>\<^verbatim>\<open>not data\<close> is true exactly on the falsy values.\<close>

fun py_truthy :: "json \<Rightarrow> bool" where
  "py_truthy JNull = False"
| "py_truthy (JBool b) = b"
| "py_truthy (JInt i) = (i \<noteq> 0)"
| "py_truthy (JFloat x) = (x \<noteq> 0)"
| "py_truthy (JStr s) = (s \<noteq> [])"
| "py_truthy (JArr xs) = (xs \<noteq> [])"
| "py_truthy (JObj kvs) = (kvs \<noteq> [])"

text \<open>
  \<^verbatim>\<open>for item in data\<close>: the elements of a list, the keys of a dict, the characters of
  a string; any other value is not iterable.
\<close>

fun py_iter :: "json \<Rightarrow> exn + json list" where
  "py_iter (JArr xs) = Inr xs"
| "py_iter (JObj kvs) = Inr (map (\<lambda>kv. JStr (fst kv)) kvs)"
| "py_iter (JStr s) = Inr (map (\<lambda>c. JStr [c]) s)"
| "py_iter v = Inl (TypeError (quoted (py_type_name v) @ '' object is not iterable''))"

text \<open>
  \<^verbatim>\<open>item.get(key, default)\<close> on a dict: the value stored under the key, the default
  when the key is missing. Any other value has no such method.
\<close>

definition dict_get :: "(string \<times> json) list \<Rightarrow> string \<Rightarrow> json \<Rightarrow> json" where
  "dict_get kvs k d = (case map_of kvs k of None \<Rightarrow> d | Some v \<Rightarrow> v)"

definition no_attribute :: "json \<Rightarrow> string \<Rightarrow> exn" where
  "no_attribute v a =
     AttributeError (quoted (py_type_name v) @ '' object has no attribute '' @ quoted a)"

section \<open>Region tables\<close>

definition SERVERS :: "string \<rightharpoonup> string" where
  "SERVERS = map_of
     [(''cn'', ''haruki-sekai-sc-master''),
      (''jp'', ''haruki-sekai-master''),
      (''en'', ''haruki-sekai-en-master''),
      (''tw'', ''haruki-sekai-tc-master''),
      (''kr'', ''haruki-sekai-kr-master'')]"

text \<open>The display names, in UTF-8.\<close>

definition SERVER_NAMES :: "string \<rightharpoonup> string" where
  "SERVER_NAMES = map_of
     [(''cn'', [CHR 0xE7, CHR 0xAE, CHR 0x80, CHR 0xE4, CHR 0xBD, CHR 0x93,
               CHR 0xE4, CHR 0xB8, CHR 0xAD, CHR 0xE6, CHR 0x96, CHR 0x87]),
      (''jp'', [CHR 0xE6, CHR 0x97, CHR 0xA5, CHR 0xE6, CHR 0x9C, CHR 0xAC,
               CHR 0xE8, CHR 0xAA, CHR 0x9E]),
      (''en'', ''English''),
      (''tw'', [CHR 0xE7, CHR 0xB9, CHR 0x81, CHR 0xE9, CHR 0xAB, CHR 0x94,
               CHR 0xE4, CHR 0xB8, CHR 0xAD, CHR 0xE6, CHR 0x96, CHR 0x87]),
      (''kr'', [CHR 0xED, CHR 0x95, CHR 0x9C, CHR 0xEA, CHR 0xB5, CHR 0xAD,
               CHR 0xEC, CHR 0x96, CHR 0xB4])]"

definition RAW_URL_TEMPLATE :: "string \<Rightarrow> string \<Rightarrow> string" where
  "RAW_URL_TEMPLATE repo file =
     ''https://raw.githubusercontent.com/Team-Haruki/'' @ repo @ ''/main/master/'' @ file"

definition CDN_URL_TEMPLATE :: "string \<Rightarrow> string \<Rightarrow> string" where
  "CDN_URL_TEMPLATE repo file =
     ''https://cdn.jsdelivr.net/gh/Team-Haruki/'' @ repo @ ''@main/master/'' @ file"

section \<open>The store\<close>

text \<open>
  A value wrapped by \<^verbatim>\<open>psycopg2.extras.Json\<close>: it is sent as JSON text, so the column
  holds a JSON document (the document \<^verbatim>\<open>null\<close> for \<open>Json JNull\<close>), never SQL NULL.
  Every other Python value is sent as it is, \<^verbatim>\<open>None\<close> (\<open>JNull\<close>) as SQL NULL.
\<close>

datatype jsonb = Json json

text \<open>
  The tuples the three loops append to \<^verbatim>\<open>records\<close>, one field per position, named
  after the column the INSERT's column list gives that position.
\<close>

record honor_record =
  h_server :: string
  h_honor_id :: json
  h_seq :: json
  h_group_id :: json
  h_honor_rarity :: json
  h_name :: json
  h_asset_bundle_name :: json
  h_levels :: jsonb

record bonds_honor_record =
  b_server :: string
  b_bonds_honor_id :: json
  b_seq :: json
  b_bonds_group_id :: json
  b_game_character_unit_id1 :: json
  b_game_character_unit_id2 :: json
  b_honor_rarity :: json
  b_name :: json
  b_description :: json
  b_levels :: jsonb

record honor_group_record =
  g_server :: string
  g_group_id :: json
  g_name :: json
  g_honor_type :: json
  g_background_asset_bundle_name :: json

text \<open>
  Modelled from the spec: the declarations of the three tables, which the repository's
  source does not hold. Each table is keyed by (region, item id), the conflict target of
  its statement; a table is a map from that key to the other columns the statements
  name, and a key column does not take NULL. Timestamps are points of an abstract
  clock. The engine's casts between literal types are outside the model: a column
  stores the value submitted.
\<close>

record honor_row =
  honors_seq :: json
  honors_group_id :: json
  honors_honor_rarity :: json
  honors_name :: json
  honors_asset_bundle_name :: json
  honors_levels :: jsonb
  honors_updated_at :: nat

record bonds_honor_row =
  bonds_seq :: json
  bonds_bonds_group_id :: json
  bonds_game_character_unit_id1 :: json
  bonds_game_character_unit_id2 :: json
  bonds_honor_rarity :: json
  bonds_name :: json
  bonds_description :: json
  bonds_levels :: jsonb
  bonds_updated_at :: nat

record honor_group_row =
  groups_name :: json
  groups_honor_type :: json
  groups_background_asset_bundle_name :: json
  groups_updated_at :: nat

type_synonym row_key = "string \<times> json"

record db =
  honors :: "row_key \<rightharpoonup> honor_row"
  bonds_honors :: "row_key \<rightharpoonup> bonds_honor_row"
  honor_groups :: "row_key \<rightharpoonup> honor_group_row"

section \<open>The world outside the process\<close>

text \<open>What one call of \<^verbatim>\<open>requests.get\<close>, \<^verbatim>\<open>raise_for_status\<close> and \<^verbatim>\<open>resp.json\<close> ends in.\<close>

datatype http_outcome =
    RequestFailed string
  | StatusError string
  | InvalidJson string
  | Body json

datatype event =
    HttpGet string
  | DbConnect string
  | DbExecute string nat
  | DbCommit
  | DbRollback
  | DbClose

text \<open>
  The answers of the network and of the database server during one invocation: what
  each URL returns, whether the server refuses a connection, a statement on a table,
  the commit or the rollback (with the error's text), and the value of
  \<^verbatim>\<open>CURRENT_TIMESTAMP\<close> in the transaction.
\<close>

record env =
  http_get :: "string \<Rightarrow> http_outcome"
  connect_fault :: "string option"
  execute_fault :: "string \<Rightarrow> string option"
  commit_fault :: "string option"
  rollback_fault :: "string option"
  current_timestamp :: nat

text \<open>
  The state the process acts on: the committed content of the store (what every other
  session and every later run sees), the content as the open transaction of
  \<^verbatim>\<open>self.conn\<close> sees it, and the effects so far, in order.
\<close>

record world =
  committed :: db
  working :: db
  trace :: "event list"

definition emit :: "event \<Rightarrow> world \<Rightarrow> world" where
  "emit e w = w\<lparr>trace := trace w @ [e]\<rparr>"

record syncer =
  server :: string
  repo :: string

record results =
  res_server :: string
  res_server_name :: "string option"
  res_honors :: nat
  res_bonds_honors :: nat
  res_honor_groups :: nat
  res_success :: bool
  res_error :: "string option"

section \<open>The fetcher\<close>

text \<open>
  The loop of \<^verbatim>\<open>fetch_json\<close> over the candidate URLs. A request that ends in a
  \<^verbatim>\<open>RequestException\<close> (raised by \<^verbatim>\<open>requests.get\<close> or by \<^verbatim>\<open>raise_for_status\<close>) or in a
  \<^verbatim>\<open>JSONDecodeError\<close> goes on to the next URL; a parsed body is returned after
  \<^verbatim>\<open>len(data)\<close> was evaluated for the log line, and the \<^verbatim>\<open>TypeError\<close> of that call is
  caught by neither handler. After the last URL the result is \<^verbatim>\<open>None\<close>.
\<close>

fun fetch_urls :: "env \<Rightarrow> string list \<Rightarrow> world \<Rightarrow> (exn + json option) \<times> world" where
  "fetch_urls env [] w = (Inr None, w)"
| "fetch_urls env (url # urls) w =
     (let w1 = emit (HttpGet url) w in
      case http_get env url of
        RequestFailed m \<Rightarrow> fetch_urls env urls w1
      | StatusError m \<Rightarrow> fetch_urls env urls w1
      | InvalidJson m \<Rightarrow> fetch_urls env urls w1
      | Body data \<Rightarrow>
          (case py_len data of
             Inl e \<Rightarrow> (Inl e, w1)
           | Inr n \<Rightarrow> (Inr (Some data), w1)))"

definition fetch_json :: "env \<Rightarrow> syncer \<Rightarrow> string \<Rightarrow> world \<Rightarrow> (exn + json option) \<times> world" where
  "fetch_json env self filename w =
     fetch_urls env
       [RAW_URL_TEMPLATE (repo self) filename, CDN_URL_TEMPLATE (repo self) filename] w"

section \<open>The record mappers\<close>

text \<open>The body of each \<^verbatim>\<open>for item in data\<close> loop: the tuple built from one item.\<close>

definition honors_tuple :: "string \<Rightarrow> json \<Rightarrow> exn + honor_record" where
  "honors_tuple srv item =
     (case item of
        JObj kvs \<Rightarrow> Inr
          \<lparr>h_server = srv,
           h_honor_id = dict_get kvs ''id'' JNull,
           h_seq = dict_get kvs ''seq'' JNull,
           h_group_id = dict_get kvs ''groupId'' JNull,
           h_honor_rarity = dict_get kvs ''honorRarity'' JNull,
           h_name = dict_get kvs ''name'' JNull,
           h_asset_bundle_name = dict_get kvs ''assetbundleName'' JNull,
           h_levels = Json (dict_get kvs ''levels'' (JArr []))\<rparr>
      | _ \<Rightarrow> Inl (no_attribute item ''get''))"

definition bonds_honors_tuple :: "string \<Rightarrow> json \<Rightarrow> exn + bonds_honor_record" where
  "bonds_honors_tuple srv item =
     (case item of
        JObj kvs \<Rightarrow> Inr
          \<lparr>b_server = srv,
           b_bonds_honor_id = dict_get kvs ''id'' JNull,
           b_seq = dict_get kvs ''seq'' JNull,
           b_bonds_group_id = dict_get kvs ''bondsGroupId'' JNull,
           b_game_character_unit_id1 = dict_get kvs ''gameCharacterUnitId1'' JNull,
           b_game_character_unit_id2 = dict_get kvs ''gameCharacterUnitId2'' JNull,
           b_honor_rarity = dict_get kvs ''honorRarity'' JNull,
           b_name = dict_get kvs ''name'' JNull,
           b_description = dict_get kvs ''description'' JNull,
           b_levels = Json (dict_get kvs ''levels'' (JArr []))\<rparr>
      | _ \<Rightarrow> Inl (no_attribute item ''get''))"

definition honor_groups_tuple :: "string \<Rightarrow> json \<Rightarrow> exn + honor_group_record" where
  "honor_groups_tuple srv item =
     (case item of
        JObj kvs \<Rightarrow> Inr
          \<lparr>g_server = srv,
           g_group_id = dict_get kvs ''id'' JNull,
           g_name = dict_get kvs ''name'' JNull,
           g_honor_type = dict_get kvs ''honorType'' JNull,
           g_background_asset_bundle_name = dict_get kvs ''backgroundAssetbundleName'' JNull\<rparr>
      | _ \<Rightarrow> Inl (no_attribute item ''get''))"

text \<open>The loop itself: the tuples in order, or the first exception.\<close>

fun map_items :: "(json \<Rightarrow> exn + 'r) \<Rightarrow> json list \<Rightarrow> exn + 'r list" where
  "map_items f [] = Inr []"
| "map_items f (item # items) =
     (case f item of
        Inl e \<Rightarrow> Inl e
      | Inr r \<Rightarrow> (case map_items f items of Inl e \<Rightarrow> Inl e | Inr rs \<Rightarrow> Inr (r # rs)))"

section \<open>The upsert statements\<close>

text \<open>
  One \<^verbatim>\<open>INSERT ... VALUES ... ON CONFLICT (key) DO UPDATE SET ...\<close> statement over the
  rows of its VALUES list, in order. A row whose key is NULL is refused; a row whose key
  the same statement has already inserted or updated is refused (the engine's
  cardinality violation); a row whose key is in the table is updated by \<open>upd\<close>, any
  other row is inserted by \<open>ins\<close>. The texts of the engine's errors are abbreviated
  to their first line.
\<close>

definition key_is_null :: "row_key \<Rightarrow> bool" where
  "key_is_null k = (snd k = JNull)"

fun insert_on_conflict ::
  "('r \<Rightarrow> row_key) \<Rightarrow> ('r \<Rightarrow> 'v) \<Rightarrow> ('r \<Rightarrow> 'v \<Rightarrow> 'v) \<Rightarrow> row_key list \<Rightarrow> 'r list \<Rightarrow>
   (row_key \<rightharpoonup> 'v) \<Rightarrow> exn + (row_key \<rightharpoonup> 'v)" where
  "insert_on_conflict key ins upd touched [] t = Inr t"
| "insert_on_conflict key ins upd touched (r # rs) t =
     (if key_is_null (key r) then
        Inl (DatabaseError ''null value in a key column violates not-null constraint'')
      else if key r \<in> set touched then
        Inl (DatabaseError ''ON CONFLICT DO UPDATE command cannot affect row a second time'')
      else
        insert_on_conflict key ins upd (key r # touched) rs
          (t(key r \<mapsto> (case t (key r) of None \<Rightarrow> ins r | Some old \<Rightarrow> upd r old))))"

definition honors_key :: "honor_record \<Rightarrow> row_key" where
  "honors_key r = (h_server r, h_honor_id r)"

definition honors_insert :: "nat \<Rightarrow> honor_record \<Rightarrow> honor_row" where
  "honors_insert ts r =
     \<lparr>honors_seq = h_seq r,
      honors_group_id = h_group_id r,
      honors_honor_rarity = h_honor_rarity r,
      honors_name = h_name r,
      honors_asset_bundle_name = h_asset_bundle_name r,
      honors_levels = h_levels r,
      honors_updated_at = ts\<rparr>"

definition honors_do_update :: "nat \<Rightarrow> honor_record \<Rightarrow> honor_row \<Rightarrow> honor_row" where
  "honors_do_update ts excluded old =
     old\<lparr>honors_seq := h_seq excluded,
         honors_group_id := h_group_id excluded,
         honors_honor_rarity := h_honor_rarity excluded,
         honors_name := h_name excluded,
         honors_asset_bundle_name := h_asset_bundle_name excluded,
         honors_levels := h_levels excluded,
         honors_updated_at := ts\<rparr>"

definition honors_sql ::
  "nat \<Rightarrow> honor_record list \<Rightarrow> (row_key \<rightharpoonup> honor_row) \<Rightarrow> exn + (row_key \<rightharpoonup> honor_row)" where
  "honors_sql ts = insert_on_conflict honors_key (honors_insert ts) (honors_do_update ts) []"

definition bonds_honors_key :: "bonds_honor_record \<Rightarrow> row_key" where
  "bonds_honors_key r = (b_server r, b_bonds_honor_id r)"

definition bonds_honors_insert :: "nat \<Rightarrow> bonds_honor_record \<Rightarrow> bonds_honor_row" where
  "bonds_honors_insert ts r =
     \<lparr>bonds_seq = b_seq r,
      bonds_bonds_group_id = b_bonds_group_id r,
      bonds_game_character_unit_id1 = b_game_character_unit_id1 r,
      bonds_game_character_unit_id2 = b_game_character_unit_id2 r,
      bonds_honor_rarity = b_honor_rarity r,
      bonds_name = b_name r,
      bonds_description = b_description r,
      bonds_levels = b_levels r,
      bonds_updated_at = ts\<rparr>"

definition bonds_honors_do_update ::
  "nat \<Rightarrow> bonds_honor_record \<Rightarrow> bonds_honor_row \<Rightarrow> bonds_honor_row" where
  "bonds_honors_do_update ts excluded old =
     old\<lparr>bonds_seq := b_seq excluded,
         bonds_bonds_group_id := b_bonds_group_id excluded,
         bonds_game_character_unit_id1 := b_game_character_unit_id1 excluded,
         bonds_game_character_unit_id2 := b_game_character_unit_id2 excluded,
         bonds_honor_rarity := b_honor_rarity excluded,
         bonds_name := b_name excluded,
         bonds_description := b_description excluded,
         bonds_levels := b_levels excluded,
         bonds_updated_at := ts\<rparr>"

definition bonds_honors_sql ::
  "nat \<Rightarrow> bonds_honor_record list \<Rightarrow> (row_key \<rightharpoonup> bonds_honor_row) \<Rightarrow>
   exn + (row_key \<rightharpoonup> bonds_honor_row)" where
  "bonds_honors_sql ts =
     insert_on_conflict bonds_honors_key (bonds_honors_insert ts) (bonds_honors_do_update ts) []"

definition honor_groups_key :: "honor_group_record \<Rightarrow> row_key" where
  "honor_groups_key r = (g_server r, g_group_id r)"

definition honor_groups_insert :: "nat \<Rightarrow> honor_group_record \<Rightarrow> honor_group_row" where
  "honor_groups_insert ts r =
     \<lparr>groups_name = g_name r,
      groups_honor_type = g_honor_type r,
      groups_background_asset_bundle_name = g_background_asset_bundle_name r,
      groups_updated_at = ts\<rparr>"

definition honor_groups_do_update ::
  "nat \<Rightarrow> honor_group_record \<Rightarrow> honor_group_row \<Rightarrow> honor_group_row" where
  "honor_groups_do_update ts excluded old =
     old\<lparr>groups_name := g_name excluded,
         groups_honor_type := g_honor_type excluded,
         groups_background_asset_bundle_name := g_background_asset_bundle_name excluded,
         groups_updated_at := ts\<rparr>"

definition honor_groups_sql ::
  "nat \<Rightarrow> honor_group_record list \<Rightarrow> (row_key \<rightharpoonup> honor_group_row) \<Rightarrow>
   exn + (row_key \<rightharpoonup> honor_group_row)" where
  "honor_groups_sql ts =
     insert_on_conflict honor_groups_key (honor_groups_insert ts) (honor_groups_do_update ts) []"

text \<open>
  \<^verbatim>\<open>psycopg2.extras.execute_values\<close> with its default page size of 100: the records are
  cut into pages and each page is one statement. The model of a page size of 0, which
  the program never passes, is the empty list of pages.
\<close>

function paginate :: "nat \<Rightarrow> 'a list \<Rightarrow> 'a list list" where
  "paginate n xs = (if n = 0 \<or> xs = [] then [] else take n xs # paginate n (drop n xs))"
  by pat_completeness auto
termination
  by (relation "measure (\<lambda>(n, xs). length xs)") auto

declare paginate.simps [simp del]

text \<open>
  The pages are executed in order on the transaction's view of one table (read by
  \<open>get\<close>, written by \<open>put\<close>); the server may refuse a statement, and the first
  exception ends the call.
\<close>

fun execute_pages ::
  "env \<Rightarrow> string \<Rightarrow> (db \<Rightarrow> 't) \<Rightarrow> ('t \<Rightarrow> db \<Rightarrow> db) \<Rightarrow> ('r list \<Rightarrow> 't \<Rightarrow> exn + 't) \<Rightarrow>
   'r list list \<Rightarrow> world \<Rightarrow> (exn + unit) \<times> world" where
  "execute_pages env tbl get put sql [] w = (Inr (), w)"
| "execute_pages env tbl get put sql (page # pages) w =
     (let w1 = emit (DbExecute tbl (length page)) w in
      case execute_fault env tbl of
        Some m \<Rightarrow> (Inl (DatabaseError m), w1)
      | None \<Rightarrow>
          (case sql page (get (working w1)) of
             Inl e \<Rightarrow> (Inl e, w1)
           | Inr t \<Rightarrow> execute_pages env tbl get put sql pages (w1\<lparr>working := put t (working w1)\<rparr>)))"

definition execute_values ::
  "env \<Rightarrow> string \<Rightarrow> (db \<Rightarrow> 't) \<Rightarrow> ('t \<Rightarrow> db \<Rightarrow> db) \<Rightarrow> ('r list \<Rightarrow> 't \<Rightarrow> exn + 't) \<Rightarrow>
   'r list \<Rightarrow> world \<Rightarrow> (exn + unit) \<times> world" where
  "execute_values env tbl get put sql records w =
     execute_pages env tbl get put sql (paginate 100 records) w"

section \<open>The three sync stages\<close>

text \<open>
  Each stage fetches its file, returns 0 when \<^verbatim>\<open>not data\<close> holds (\<^verbatim>\<open>None\<close> or any falsy
  value), builds the records, submits them and returns their number. An exception of any
  step leaves the stage at once.
\<close>

definition sync_honors :: "env \<Rightarrow> syncer \<Rightarrow> world \<Rightarrow> (exn + nat) \<times> world" where
  "sync_honors env self w =
     (case fetch_json env self ''honors.json'' w of
        (Inl e, w1) \<Rightarrow> (Inl e, w1)
      | (Inr None, w1) \<Rightarrow> (Inr 0, w1)
      | (Inr (Some data), w1) \<Rightarrow>
          if \<not> py_truthy data then (Inr 0, w1)
          else
            (case py_iter data of
               Inl e \<Rightarrow> (Inl e, w1)
             | Inr items \<Rightarrow>
                 (case map_items (honors_tuple (server self)) items of
                    Inl e \<Rightarrow> (Inl e, w1)
                  | Inr records \<Rightarrow>
                      (case execute_values env ''honors'' honors (\<lambda>t d. d\<lparr>honors := t\<rparr>)
                              (honors_sql (current_timestamp env)) records w1 of
                         (Inl e, w2) \<Rightarrow> (Inl e, w2)
                       | (Inr u, w2) \<Rightarrow> (Inr (length records), w2)))))"

definition sync_bonds_honors :: "env \<Rightarrow> syncer \<Rightarrow> world \<Rightarrow> (exn + nat) \<times> world" where
  "sync_bonds_honors env self w =
     (case fetch_json env self ''bondsHonors.json'' w of
        (Inl e, w1) \<Rightarrow> (Inl e, w1)
      | (Inr None, w1) \<Rightarrow> (Inr 0, w1)
      | (Inr (Some data), w1) \<Rightarrow>
          if \<not> py_truthy data then (Inr 0, w1)
          else
            (case py_iter data of
               Inl e \<Rightarrow> (Inl e, w1)
             | Inr items \<Rightarrow>
                 (case map_items (bonds_honors_tuple (server self)) items of
                    Inl e \<Rightarrow> (Inl e, w1)
                  | Inr records \<Rightarrow>
                      (case execute_values env ''bonds_honors'' bonds_honors
                              (\<lambda>t d. d\<lparr>bonds_honors := t\<rparr>)
                              (bonds_honors_sql (current_timestamp env)) records w1 of
                         (Inl e, w2) \<Rightarrow> (Inl e, w2)
                       | (Inr u, w2) \<Rightarrow> (Inr (length records), w2)))))"

definition sync_honor_groups :: "env \<Rightarrow> syncer \<Rightarrow> world \<Rightarrow> (exn + nat) \<times> world" where
  "sync_honor_groups env self w =
     (case fetch_json env self ''honorGroups.json'' w of
        (Inl e, w1) \<Rightarrow> (Inl e, w1)
      | (Inr None, w1) \<Rightarrow> (Inr 0, w1)
      | (Inr (Some data), w1) \<Rightarrow>
          if \<not> py_truthy data then (Inr 0, w1)
          else
            (case py_iter data of
               Inl e \<Rightarrow> (Inl e, w1)
             | Inr items \<Rightarrow>
                 (case map_items (honor_groups_tuple (server self)) items of
                    Inl e \<Rightarrow> (Inl e, w1)
                  | Inr records \<Rightarrow>
                      (case execute_values env ''honor_groups'' honor_groups
                              (\<lambda>t d. d\<lparr>honor_groups := t\<rparr>)
                              (honor_groups_sql (current_timestamp env)) records w1 of
                         (Inl e, w2) \<Rightarrow> (Inl e, w2)
                       | (Inr u, w2) \<Rightarrow> (Inr (length records), w2)))))"

section \<open>The connection and the run\<close>

text \<open>
  \<^verbatim>\<open>HonorsSyncer.__init__\<close>: the repository is looked up first, and a missing (or empty)
  one raises before \<^verbatim>\<open>psycopg2.connect\<close> is called. A new connection sees the committed
  content.
\<close>

definition HonorsSyncer :: "env \<Rightarrow> string \<Rightarrow> string \<Rightarrow> world \<Rightarrow> (exn + syncer) \<times> world" where
  "HonorsSyncer env database_url srv w =
     (case SERVERS srv of
        None \<Rightarrow> (Inl (ValueError (''Unknown server: '' @ srv)), w)
      | Some rp \<Rightarrow>
          if rp = [] then (Inl (ValueError (''Unknown server: '' @ srv)), w)
          else
            (let w1 = emit (DbConnect database_url) w in
             case connect_fault env of
               Some m \<Rightarrow> (Inl (DatabaseError m), w1)
             | None \<Rightarrow> (Inr \<lparr>server = srv, repo = rp\<rparr>, w1\<lparr>working := committed w1\<rparr>)))"

text \<open>
  \<^verbatim>\<open>conn.commit()\<close> makes the transaction's view the committed content unless it
  raises. \<^verbatim>\<open>conn.rollback()\<close> drops what was not committed unless it raises (as it does
  on a connection that is closed or broken); a rollback that raised has changed nothing
  on the client's side. \<^verbatim>\<open>conn.close()\<close> drops what was not committed; closing is
  allowed in every state of the connection and does not raise.
\<close>

definition commit :: "env \<Rightarrow> world \<Rightarrow> (exn + unit) \<times> world" where
  "commit env w =
     (let w1 = emit DbCommit w in
      case commit_fault env of
        Some m \<Rightarrow> (Inl (DatabaseError m), w1)
      | None \<Rightarrow> (Inr (), w1\<lparr>committed := working w1\<rparr>))"

definition rollback :: "env \<Rightarrow> world \<Rightarrow> (exn + unit) \<times> world" where
  "rollback env w =
     (let w1 = emit DbRollback w in
      case rollback_fault env of
        Some m \<Rightarrow> (Inl (DatabaseError m), w1)
      | None \<Rightarrow> (Inr (), w1\<lparr>working := committed w1\<rparr>))"

definition close :: "world \<Rightarrow> world" where
  "close w = (emit DbClose w)\<lparr>working := committed w\<rparr>"

text \<open>
  The \<^verbatim>\<open>except Exception\<close> branch of \<^verbatim>\<open>run\<close>: the rollback comes first and nothing
  guards it, so its exception leaves \<^verbatim>\<open>run\<close> before the error is recorded and before
  the summary is returned.
\<close>

definition run_failed :: "env \<Rightarrow> exn \<Rightarrow> results \<Rightarrow> world \<Rightarrow> (exn + results) \<times> world" where
  "run_failed env e res w =
     (case rollback env w of
        (Inl e', w1) \<Rightarrow> (Inl e', w1)
      | (Inr u, w1) \<Rightarrow> (Inr (res\<lparr>res_error := Some (str_exn e)\<rparr>), w1))"

text \<open>
  \<^verbatim>\<open>run\<close> returns its summary, or leaves with the exception of a rollback that raised.
\<close>

definition run :: "env \<Rightarrow> syncer \<Rightarrow> world \<Rightarrow> (exn + results) \<times> world" where
  "run env self w =
     (let res0 = \<lparr>res_server = server self,
                  res_server_name = SERVER_NAMES (server self),
                  res_honors = 0,
                  res_bonds_honors = 0,
                  res_honor_groups = 0,
                  res_success = False,
                  res_error = None\<rparr> in
      case sync_honors env self w of
        (Inl e, w1) \<Rightarrow> run_failed env e res0 w1
      | (Inr n1, w1) \<Rightarrow>
          (let res1 = res0\<lparr>res_honors := n1\<rparr> in
           case sync_bonds_honors env self w1 of
             (Inl e, w2) \<Rightarrow> run_failed env e res1 w2
           | (Inr n2, w2) \<Rightarrow>
               (let res2 = res1\<lparr>res_bonds_honors := n2\<rparr> in
                case sync_honor_groups env self w2 of
                  (Inl e, w3) \<Rightarrow> run_failed env e res2 w3
                | (Inr n3, w3) \<Rightarrow>
                    (let res3 = res2\<lparr>res_honor_groups := n3\<rparr> in
                     case commit env w3 of
                       (Inl e, w4) \<Rightarrow> run_failed env e res3 w4
                     | (Inr u, w4) \<Rightarrow> (Inr (res3\<lparr>res_success := True\<rparr>), w4)))))"

section \<open>The entry point\<close>

text \<open>
  \<^verbatim>\<open>main\<close>, from the process environment to the exit status. \<^verbatim>\<open>sys.exit(1)\<close> gives
  status 1, as does an exception nobody catches (the constructor's, or the one
  \<^verbatim>\<open>run\<close> leaves with); returning from \<^verbatim>\<open>main\<close> gives status 0. The \<^verbatim>\<open>finally\<close>
  clause closes the connection on every way out of the \<^verbatim>\<open>try\<close> block.
\<close>

definition main :: "(string \<rightharpoonup> string) \<Rightarrow> env \<Rightarrow> world \<Rightarrow> nat \<times> world" where
  "main environ env w =
     (case environ ''DATABASE_URL'' of
        None \<Rightarrow> (1, w)
      | Some database_url \<Rightarrow>
          if database_url = [] then (1, w)
          else
            (let srv = (case environ ''SERVER'' of None \<Rightarrow> ''cn'' | Some s \<Rightarrow> s) in
             if srv \<notin> dom SERVERS then (1, w)
             else
               (case HonorsSyncer env database_url srv w of
                  (Inl e, w1) \<Rightarrow> (1, w1)
                | (Inr self, w1) \<Rightarrow>
                    (case run env self w1 of
                       (Inl e, w2) \<Rightarrow> (1, close w2)
                     | (Inr res, w2) \<Rightarrow>
                         if res_success res then (0, close w2) else (1, close w2)))))"

section \<open>Notions the statements use\<close>

text \<open>
  A VALUES list the engine accepts: no key twice, no NULL in a key. \<open>put_rows\<close> is
  the table after every row of a list was stored under its key, in order.
\<close>

definition stmt_ok :: "('r \<Rightarrow> row_key) \<Rightarrow> 'r list \<Rightarrow> bool" where
  "stmt_ok key rs = (distinct (map key rs) \<and> (\<forall>r \<in> set rs. \<not> key_is_null (key r)))"

fun put_rows ::
  "('r \<Rightarrow> row_key) \<Rightarrow> ('r \<Rightarrow> 'v) \<Rightarrow> (row_key \<rightharpoonup> 'v) \<Rightarrow> 'r list \<Rightarrow> (row_key \<rightharpoonup> 'v)" where
  "put_rows key mk t [] = t"
| "put_rows key mk t (r # rs) = put_rows key mk (t(key r \<mapsto> mk r)) rs"

text \<open>The rows the statements on one table have submitted, summed over a trace.\<close>

fun submitted :: "string \<Rightarrow> event list \<Rightarrow> nat" where
  "submitted tbl [] = 0"
| "submitted tbl (DbExecute t n # evs) = (if t = tbl then n else 0) + submitted tbl evs"
| "submitted tbl (e # evs) = submitted tbl evs"

text \<open>
  From \<open>w\<close> to \<open>w'\<close> nothing was committed: the committed content is the same and
  the effects in between hold no commit.
\<close>

definition uncommitted :: "world \<Rightarrow> world \<Rightarrow> bool" where
  "uncommitted w w' =
     (committed w' = committed w \<and>
      (\<exists>evs. trace w' = trace w @ evs \<and> DbCommit \<notin> set evs))"

text \<open>A request that did not end in a parsed body.\<close>

fun attempt_failed :: "http_outcome \<Rightarrow> bool" where
  "attempt_failed (RequestFailed m) = True"
| "attempt_failed (StatusError m) = True"
| "attempt_failed (InvalidJson m) = True"
| "attempt_failed (Body data) = False"

text \<open>
  The common shape of the three stages, with the file, the table and its accessors, the
  statement and the mapper as parameters. The stages above are its three instances
  (lemmas \<open>sync_honors_stage\<close>, \<open>sync_bonds_honors_stage\<close> and
  \<open>sync_honor_groups_stage\<close>); facts shared by the stages are proved once, on it.
\<close>

definition sync_stage ::
  "string \<Rightarrow> string \<Rightarrow> (db \<Rightarrow> 't) \<Rightarrow> ('t \<Rightarrow> db \<Rightarrow> db) \<Rightarrow> (nat \<Rightarrow> 'r list \<Rightarrow> 't \<Rightarrow> exn + 't) \<Rightarrow>
   (string \<Rightarrow> json \<Rightarrow> exn + 'r) \<Rightarrow> env \<Rightarrow> syncer \<Rightarrow> world \<Rightarrow> (exn + nat) \<times> world" where
  "sync_stage file tbl get put sql tuple env self w =
     (case fetch_json env self file w of
        (Inl e, w1) \<Rightarrow> (Inl e, w1)
      | (Inr None, w1) \<Rightarrow> (Inr 0, w1)
      | (Inr (Some data), w1) \<Rightarrow>
          if \<not> py_truthy data then (Inr 0, w1)
          else
            (case py_iter data of
               Inl e \<Rightarrow> (Inl e, w1)
             | Inr items \<Rightarrow>
                 (case map_items (tuple (server self)) items of
                    Inl e \<Rightarrow> (Inl e, w1)
                  | Inr records \<Rightarrow>
                      (case execute_values env tbl get put (sql (current_timestamp env))
                              records w1 of
                         (Inl e, w2) \<Rightarrow> (Inl e, w2)
                       | (Inr u, w2) \<Rightarrow> (Inr (length records), w2)))))"

text \<open>The summary \<^verbatim>\<open>run\<close> starts from.\<close>

definition start_results :: "syncer \<Rightarrow> results" where
  "start_results self =
     \<lparr>res_server = server self,
      res_server_name = SERVER_NAMES (server self),
      res_honors = 0,
      res_bonds_honors = 0,
      res_honor_groups = 0,
      res_success = False,
      res_error = None\<rparr>"

text \<open>
  Both candidate URLs of a file fail; and the world after the two requests of such a
  fetch, which differs from the world before by the two requests only.
\<close>

definition absent :: "env \<Rightarrow> syncer \<Rightarrow> string \<Rightarrow> bool" where
  "absent env self file =
     (attempt_failed (http_get env (RAW_URL_TEMPLATE (repo self) file)) \<and>
      attempt_failed (http_get env (CDN_URL_TEMPLATE (repo self) file)))"

definition after_fetch :: "syncer \<Rightarrow> string \<Rightarrow> world \<Rightarrow> world" where
  "after_fetch self file w =
     w\<lparr>trace := trace w @
       [HttpGet (RAW_URL_TEMPLATE (repo self) file), HttpGet (CDN_URL_TEMPLATE (repo self) file)]\<rparr>"

section \<open>The mappers' contract\<close>

text \<open>
  What the specification asks of a mapper, as tables: for each table, the columns that
  hold plain values, each with the key of the source object it is filled from, in the
  order of the INSERT's column list (after \<^verbatim>\<open>server\<close>, before \<^verbatim>\<open>levels\<close>).
\<close>

definition honors_columns :: "(string \<times> (honor_record \<Rightarrow> json)) list" where
  "honors_columns =
     [(''id'', h_honor_id), (''seq'', h_seq), (''groupId'', h_group_id),
      (''honorRarity'', h_honor_rarity), (''name'', h_name),
      (''assetbundleName'', h_asset_bundle_name)]"

definition bonds_honors_columns :: "(string \<times> (bonds_honor_record \<Rightarrow> json)) list" where
  "bonds_honors_columns =
     [(''id'', b_bonds_honor_id), (''seq'', b_seq), (''bondsGroupId'', b_bonds_group_id),
      (''gameCharacterUnitId1'', b_game_character_unit_id1),
      (''gameCharacterUnitId2'', b_game_character_unit_id2),
      (''honorRarity'', b_honor_rarity), (''name'', b_name), (''description'', b_description)]"

definition honor_groups_columns :: "(string \<times> (honor_group_record \<Rightarrow> json)) list" where
  "honor_groups_columns =
     [(''id'', g_group_id), (''name'', g_name), (''honorType'', g_honor_type),
      (''backgroundAssetbundleName'', g_background_asset_bundle_name)]"

text \<open>The value of a key in a source object, null when the key is missing.\<close>

definition value_or_null :: "(string \<times> json) list \<Rightarrow> string \<Rightarrow> json" where
  "value_or_null kvs k = (case map_of kvs k of None \<Rightarrow> JNull | Some v \<Rightarrow> v)"

section \<open>Concrete inputs\<close>

text \<open>
  The two-element \<^verbatim>\<open>honors.json\<close> of the specification's end-to-end example, a network
  that serves it for region \<^verbatim>\<open>jp\<close> at the primary URL and fails every other request, a
  database server that refuses nothing, and an empty store.
\<close>

definition example_honors :: json where
  "example_honors = JArr
     [JObj [(''id'', JInt 1), (''seq'', JInt 1), (''groupId'', JInt 10),
            (''honorRarity'', JStr ''low''), (''name'', JStr ''A''),
            (''assetbundleName'', JStr ''a''), (''levels'', JArr [])],
      JObj [(''id'', JInt 2), (''seq'', JInt 2), (''groupId'', JInt 11),
            (''honorRarity'', JStr ''high''), (''name'', JStr ''B''),
            (''assetbundleName'', JStr ''b''),
            (''levels'', JArr [JObj [(''level'', JInt 1)]])]]"

definition example_env :: env where
  "example_env =
     \<lparr>http_get = (\<lambda>url.
        if url = RAW_URL_TEMPLATE ''haruki-sekai-master'' ''honors.json''
        then Body example_honors else RequestFailed ''connection refused''),
      connect_fault = None,
      execute_fault = (\<lambda>tbl. None),
      commit_fault = None,
      rollback_fault = None,
      current_timestamp = 7\<rparr>"

definition empty_db :: db where
  "empty_db = \<lparr>honors = Map.empty, bonds_honors = Map.empty, honor_groups = Map.empty\<rparr>"

definition example_world :: world where
  "example_world = \<lparr>committed = empty_db, working = empty_db, trace = []\<rparr>"

definition example_syncer :: syncer where
  "example_syncer = \<lparr>server = ''jp'', repo = ''haruki-sekai-master''\<rparr>"

definition example_environ :: "string \<rightharpoonup> string" where
  "example_environ = [''DATABASE_URL'' \<mapsto> ''postgresql://sync@db/sekai'', ''SERVER'' \<mapsto> ''jp'']"

text \<open>A network whose primary mirror answers with a body that is not JSON.\<close>

definition fallback_env :: env where
  "fallback_env =
     \<lparr>http_get = (\<lambda>url.
        if url = RAW_URL_TEMPLATE ''haruki-sekai-master'' ''honors.json''
        then InvalidJson ''Expecting value: line 1 column 1 (char 0)''
        else if url = CDN_URL_TEMPLATE ''haruki-sekai-master'' ''honors.json''
        then Body example_honors
        else StatusError ''404 Client Error''),
      connect_fault = None,
      execute_fault = (\<lambda>tbl. None),
      commit_fault = None,
      rollback_fault = None,
      current_timestamp = 9\<rparr>"

text \<open>
  A run whose third upsert the server refuses: the honors are served, the bonds honors
  are missing at both mirrors, one honor group is served and the statement on
  \<^verbatim>\<open>honor_groups\<close> fails. The worlds after each stage of that run are named.
\<close>

definition example_groups :: json where
  "example_groups = JArr
     [JObj [(''id'', JInt 10), (''name'', JStr ''G''), (''honorType'', JStr ''event''),
            (''backgroundAssetbundleName'', JStr ''bg'')]]"

definition broken_env :: env where
  "broken_env =
     \<lparr>http_get = (\<lambda>url.
        if url = RAW_URL_TEMPLATE ''haruki-sekai-master'' ''honors.json''
        then Body example_honors
        else if url = RAW_URL_TEMPLATE ''haruki-sekai-master'' ''honorGroups.json''
        then Body example_groups
        else RequestFailed ''connection refused''),
      connect_fault = None,
      execute_fault = (\<lambda>tbl.
        if tbl = ''honor_groups'' then Some ''server closed the connection unexpectedly''
        else None),
      commit_fault = None,
      rollback_fault = None,
      current_timestamp = 7\<rparr>"

text \<open>The same run on a connection whose rollback raises as well.\<close>

definition lost_env :: env where
  "lost_env = broken_env\<lparr>rollback_fault := Some ''connection already closed''\<rparr>"

definition broken_world1 :: world where
  "broken_world1 = snd (sync_honors broken_env example_syncer example_world)"

definition broken_world2 :: world where
  "broken_world2 = snd (sync_bonds_honors broken_env example_syncer broken_world1)"

definition broken_world3 :: world where
  "broken_world3 = snd (sync_honor_groups broken_env example_syncer broken_world2)"

text \<open>The world after the first stage of the run on \<open>example_env\<close>.\<close>

definition example_world1 :: world where
  "example_world1 = snd (sync_honors example_env example_syncer example_world)"

text \<open>A network that serves an empty array for \<^verbatim>\<open>honors.json\<close> and nothing else.\<close>

definition empty_env :: env where
  "empty_env =
     \<lparr>http_get = (\<lambda>url.
        if url = RAW_URL_TEMPLATE ''haruki-sekai-master'' ''honors.json''
        then Body (JArr []) else StatusError ''404 Client Error: Not Found''),
      connect_fault = None,
      execute_fault = (\<lambda>tbl. None),
      commit_fault = None,
      rollback_fault = None,
      current_timestamp = 8\<rparr>"

text \<open>
  The records of the two example honors, and the world after they were upserted into
  the empty store at time 7.
\<close>

definition example_records :: "honor_record list" where
  "example_records =
     [\<lparr>h_server = ''jp'', h_honor_id = JInt 1, h_seq = JInt 1, h_group_id = JInt 10,
       h_honor_rarity = JStr ''low'', h_name = JStr ''A'', h_asset_bundle_name = JStr ''a'',
       h_levels = Json (JArr [])\<rparr>,
      \<lparr>h_server = ''jp'', h_honor_id = JInt 2, h_seq = JInt 2, h_group_id = JInt 11,
       h_honor_rarity = JStr ''high'', h_name = JStr ''B'', h_asset_bundle_name = JStr ''b'',
       h_levels = Json (JArr [JObj [(''level'', JInt 1)]])\<rparr>]"

definition upserted_world :: world where
  "upserted_world =
     snd (execute_values example_env ''honors'' honors (\<lambda>t d. d\<lparr>honors := t\<rparr>)
            (honors_sql (current_timestamp example_env)) example_records example_world)"

text \<open>
  A store that holds honor 1 of region \<^verbatim>\<open>jp\<close> with every column filled, and a network
  whose \<^verbatim>\<open>honors.json\<close> now holds that honor with its \<^verbatim>\<open>id\<close> and \<^verbatim>\<open>name\<close> only.
\<close>

definition stored_db :: db where
  "stored_db =
     \<lparr>honors = [(''jp'', JInt 1) \<mapsto>
        \<lparr>honors_seq = JInt 1, honors_group_id = JInt 10, honors_honor_rarity = JStr ''low'',
         honors_name = JStr ''A'', honors_asset_bundle_name = JStr ''a'',
         honors_levels = Json (JArr [JObj [(''level'', JInt 1)]]), honors_updated_at = 7\<rparr>],
      bonds_honors = Map.empty,
      honor_groups = Map.empty\<rparr>"

definition stored_world :: world where
  "stored_world = \<lparr>committed = stored_db, working = stored_db, trace = []\<rparr>"

definition sparse_env :: env where
  "sparse_env =
     \<lparr>http_get = (\<lambda>url.
        if url = RAW_URL_TEMPLATE ''haruki-sekai-master'' ''honors.json''
        then Body (JArr [JObj [(''id'', JInt 1), (''name'', JStr ''A2'')]])
        else RequestFailed ''connection refused''),
      connect_fault = None,
      execute_fault = (\<lambda>tbl. None),
      commit_fault = None,
      rollback_fault = None,
      current_timestamp = 9\<rparr>"

definition resynced_world :: world where
  "resynced_world = snd (sync_honors sparse_env example_syncer stored_world)"

section \<open>Facts about the region tables\<close>

lemma SERVERS_dom: "dom SERVERS = {''cn'', ''jp'', ''en'', ''tw'', ''kr''}"
  by (auto simp: SERVERS_def split: if_splits)

lemma SERVERS_None: "srv \<notin> {''cn'', ''jp'', ''en'', ''tw'', ''kr''} \<Longrightarrow> SERVERS srv = None"
  using SERVERS_dom by blast

section \<open>Facts about the statements\<close>

lemma insert_on_conflict_iff:
  assumes "\<And>r old. upd r old = ins r"
  shows "insert_on_conflict key ins upd touched rs t = Inr t' \<longleftrightarrow>
     stmt_ok key rs \<and> (\<forall>r \<in> set rs. key r \<notin> set touched) \<and> t' = put_rows key ins t rs"
proof (induction rs arbitrary: touched t)
  case Nil
  then show ?case by (auto simp: stmt_ok_def)
next
  case (Cons r rs)
  have step: "(case t (key r) of None \<Rightarrow> ins r | Some old \<Rightarrow> upd r old) = ins r"
    by (simp add: assms split: option.split)
  show ?case
  proof (cases "key_is_null (key r) \<or> key r \<in> set touched")
    case True
    then show ?thesis by (auto simp: stmt_ok_def)
  next
    case False
    then have "insert_on_conflict key ins upd touched (r # rs) t =
        insert_on_conflict key ins upd (key r # touched) rs (t(key r \<mapsto> ins r))"
      by (simp add: step)
    moreover have "(insert_on_conflict key ins upd (key r # touched) rs (t(key r \<mapsto> ins r)) = Inr t') \<longleftrightarrow>
        stmt_ok key rs \<and> (\<forall>x \<in> set rs. key x \<notin> set (key r # touched)) \<and>
        t' = put_rows key ins (t(key r \<mapsto> ins r)) rs"
      by (rule Cons.IH)
    ultimately show ?thesis
      using False by (auto simp: stmt_ok_def image_iff simp del: fun_upd_apply)
  qed
qed

lemma find_app:
  "find P (xs @ ys) = (case find P xs of None \<Rightarrow> find P ys | Some x \<Rightarrow> Some x)"
  by (induction xs) simp_all

lemma put_rows_apply:
  "put_rows key mk t rs k =
     (case find (\<lambda>r. key r = k) (rev rs) of None \<Rightarrow> t k | Some r \<Rightarrow> Some (mk r))"
proof (induction rs arbitrary: t)
  case Nil
  then show ?case by simp
next
  case (Cons r rs)
  show ?case
    by (simp add: Cons.IH find_app split: option.split)
qed

lemma paginate_concat: "0 < n \<Longrightarrow> concat (paginate n xs) = xs"
proof (induction n xs rule: paginate.induct)
  case (1 n xs)
  show ?case
  proof (cases "xs = []")
    case True
    then show ?thesis by (simp add: paginate.simps [of n "[]"])
  next
    case False
    with 1 show ?thesis by (simp add: paginate.simps [of n xs])
  qed
qed

section \<open>The fetcher's fallback\<close>

lemma urls_differ: "RAW_URL_TEMPLATE rp f \<noteq> CDN_URL_TEMPLATE rp f"
  by (simp add: RAW_URL_TEMPLATE_def CDN_URL_TEMPLATE_def)

lemma emit_simps [simp]:
  "trace (emit e w) = trace w @ [e]"
  "committed (emit e w) = committed w"
  "working (emit e w) = working w"
  by (simp_all add: emit_def)

lemma fetch_urls_world:
  "\<exists>us. snd (fetch_urls env urls w) = w\<lparr>trace := trace w @ map HttpGet us\<rparr>"
proof (induction urls arbitrary: w)
  case Nil
  have "snd (fetch_urls env [] w) = w\<lparr>trace := trace w @ map HttpGet []\<rparr>" by simp
  then show ?case by blast
next
  case (Cons url urls)
  obtain us where us: "snd (fetch_urls env urls (emit (HttpGet url) w)) =
      (emit (HttpGet url) w)\<lparr>trace := trace (emit (HttpGet url) w) @ map HttpGet us\<rparr>"
    using Cons.IH by blast
  have a: "(emit (HttpGet url) w)\<lparr>trace := trace (emit (HttpGet url) w) @ map HttpGet us\<rparr> =
      w\<lparr>trace := trace w @ map HttpGet (url # us)\<rparr>"
    by (simp add: emit_def)
  have b: "emit (HttpGet url) w = w\<lparr>trace := trace w @ map HttpGet [url]\<rparr>"
    by (simp add: emit_def)
  show ?case
  proof (cases "http_get env url")
    case (Body data)
    then have "snd (fetch_urls env (url # urls) w) = emit (HttpGet url) w"
      by (simp add: Let_def split: sum.split)
    with b show ?thesis by metis
  next
    case (RequestFailed m)
    then have "snd (fetch_urls env (url # urls) w) = snd (fetch_urls env urls (emit (HttpGet url) w))"
      by (simp add: Let_def)
    with us a show ?thesis by metis
  next
    case (StatusError m)
    then have "snd (fetch_urls env (url # urls) w) = snd (fetch_urls env urls (emit (HttpGet url) w))"
      by (simp add: Let_def)
    with us a show ?thesis by metis
  next
    case (InvalidJson m)
    then have "snd (fetch_urls env (url # urls) w) = snd (fetch_urls env urls (emit (HttpGet url) w))"
      by (simp add: Let_def)
    with us a show ?thesis by metis
  qed
qed

lemma fetch_json_world:
  "\<exists>us. snd (fetch_json env self f w) = w\<lparr>trace := trace w @ map HttpGet us\<rparr>"
  unfolding fetch_json_def by (rule fetch_urls_world)

lemma fetch_json_primary_failed:
  assumes "attempt_failed (http_get env (RAW_URL_TEMPLATE (repo self) f))"
  shows "fetch_json env self f w =
    ((case http_get env (CDN_URL_TEMPLATE (repo self) f) of
        Body data \<Rightarrow> (case py_len data of Inl e \<Rightarrow> Inl e | Inr n \<Rightarrow> Inr (Some data))
      | _ \<Rightarrow> Inr None),
     w\<lparr>trace := trace w @
        [HttpGet (RAW_URL_TEMPLATE (repo self) f), HttpGet (CDN_URL_TEMPLATE (repo self) f)]\<rparr>)"
  using assms
  by (cases "http_get env (RAW_URL_TEMPLATE (repo self) f)";
      cases "http_get env (CDN_URL_TEMPLATE (repo self) f)")
     (simp_all add: fetch_json_def Let_def emit_def split: sum.split)

lemma fetch_json_primary_body:
  assumes "http_get env (RAW_URL_TEMPLATE (repo self) f) = Body data"
  shows "fetch_json env self f w =
    ((case py_len data of Inl e \<Rightarrow> Inl e | Inr n \<Rightarrow> Inr (Some data)),
     w\<lparr>trace := trace w @ [HttpGet (RAW_URL_TEMPLATE (repo self) f)]\<rparr>)"
  using assms by (simp add: fetch_json_def Let_def emit_def split: sum.split)

text \<open>
  C4. Every fetch requests the primary (raw GitHub) URL first and never requests it a
  second time. When that request ends in a transport error, an HTTP error status or a
  body that is not JSON, the CDN URL of the same repository and filename is requested
  next, nothing after it, and the fetch returns what that second request gives.
\<close>

theorem fetch_json_fallback:
  "(\<exists>rest. trace (snd (fetch_json env self f w)) =
        trace w @ HttpGet (RAW_URL_TEMPLATE (repo self) f) # rest \<and>
      HttpGet (RAW_URL_TEMPLATE (repo self) f) \<notin> set rest) \<and>
   ((\<exists>m. http_get env (RAW_URL_TEMPLATE (repo self) f) = RequestFailed m) \<or>
    (\<exists>m. http_get env (RAW_URL_TEMPLATE (repo self) f) = StatusError m) \<or>
    (\<exists>m. http_get env (RAW_URL_TEMPLATE (repo self) f) = InvalidJson m) \<longrightarrow>
    trace (snd (fetch_json env self f w)) =
      trace w @ [HttpGet (RAW_URL_TEMPLATE (repo self) f), HttpGet (CDN_URL_TEMPLATE (repo self) f)] \<and>
    fst (fetch_json env self f w) =
      (case http_get env (CDN_URL_TEMPLATE (repo self) f) of
         Body data \<Rightarrow> (case py_len data of Inl e \<Rightarrow> Inl e | Inr n \<Rightarrow> Inr (Some data))
       | _ \<Rightarrow> Inr None))"
proof (cases "http_get env (RAW_URL_TEMPLATE (repo self) f)")
  case (Body data)
  then show ?thesis by (simp add: fetch_json_primary_body)
next
  case (RequestFailed m)
  then have "attempt_failed (http_get env (RAW_URL_TEMPLATE (repo self) f))" by simp
  then show ?thesis by (simp add: fetch_json_primary_failed urls_differ)
next
  case (StatusError m)
  then have "attempt_failed (http_get env (RAW_URL_TEMPLATE (repo self) f))" by simp
  then show ?thesis by (simp add: fetch_json_primary_failed urls_differ)
next
  case (InvalidJson m)
  then have "attempt_failed (http_get env (RAW_URL_TEMPLATE (repo self) f))" by simp
  then show ?thesis by (simp add: fetch_json_primary_failed urls_differ)
qed

theorem fetch_json_fallback_witness:
  "trace (snd (fetch_json fallback_env example_syncer ''honors.json'' example_world)) =
     [HttpGet ''https://raw.githubusercontent.com/Team-Haruki/haruki-sekai-master/main/master/honors.json'',
      HttpGet ''https://cdn.jsdelivr.net/gh/Team-Haruki/haruki-sekai-master@main/master/honors.json''] \<and>
   fst (fetch_json fallback_env example_syncer ''honors.json'' example_world) =
     Inr (Some example_honors)"
  using fetch_json_fallback [of fallback_env example_syncer "''honors.json''" example_world]
  by (simp add: fallback_env_def example_syncer_def example_world_def example_honors_def
      RAW_URL_TEMPLATE_def CDN_URL_TEMPLATE_def)

section \<open>Facts about the execution of pages\<close>

lemma put_rows_append:
  "put_rows key mk t (xs @ ys) = put_rows key mk (put_rows key mk t xs) ys"
  by (induction xs arbitrary: t) simp_all

lemma submitted_append: "submitted tbl (xs @ ys) = submitted tbl xs + submitted tbl ys"
  by (induction tbl xs rule: submitted.induct) simp_all

lemma submitted_HttpGet: "submitted tbl (map HttpGet us) = 0"
  by (induction us) simp_all

lemma submitted_DbExecute:
  "submitted tbl (map (\<lambda>p. DbExecute tbl (length p)) pages) = length (concat pages)"
  by (induction pages) simp_all

lemma execute_pages_frame:
  "committed (snd (execute_pages env tbl get put sql pages w)) = committed w \<and>
   (\<exists>ns. trace (snd (execute_pages env tbl get put sql pages w)) =
      trace w @ map (DbExecute tbl) ns)"
proof (induction pages arbitrary: w)
  case Nil
  have "trace w = trace w @ map (DbExecute tbl) []" by simp
  then have "\<exists>ns. trace w = trace w @ map (DbExecute tbl) ns" by (rule exI)
  then show ?case by simp
next
  case (Cons page pages)
  let ?w1 = "emit (DbExecute tbl (length page)) w"
  have "trace w @ [DbExecute tbl (length page)] = trace w @ map (DbExecute tbl) [length page]"
    by simp
  then have one: "\<exists>ns. trace w @ [DbExecute tbl (length page)] = trace w @ map (DbExecute tbl) ns"
    by (rule exI)
  show ?case
  proof (cases "execute_fault env tbl")
    case (Some m)
    then show ?thesis using one by (simp add: Let_def)
  next
    case None
    show ?thesis
    proof (cases "sql page (get (working w))")
      case (Inl e)
      with None show ?thesis using one by (simp add: Let_def)
    next
      case (Inr t)
      let ?w2 = "?w1\<lparr>working := put t (working w)\<rparr>"
      from None Inr have eq: "execute_pages env tbl get put sql (page # pages) w =
          execute_pages env tbl get put sql pages ?w2"
        by (simp add: Let_def)
      from Cons.IH [of ?w2] obtain ns where
        c: "committed (snd (execute_pages env tbl get put sql pages ?w2)) = committed ?w2" and
        ns: "trace (snd (execute_pages env tbl get put sql pages ?w2)) =
          trace ?w2 @ map (DbExecute tbl) ns"
        by blast
      have "trace (snd (execute_pages env tbl get put sql pages ?w2)) =
          trace w @ map (DbExecute tbl) (length page # ns)"
        unfolding ns by simp
      then have "\<exists>ms. trace (snd (execute_pages env tbl get put sql pages ?w2)) =
          trace w @ map (DbExecute tbl) ms"
        by (rule exI)
      moreover from c have "committed (snd (execute_pages env tbl get put sql pages ?w2)) = committed w"
        by simp
      ultimately show ?thesis unfolding eq by (rule conjI [rotated])
    qed
  qed
qed

lemma execute_pages_success:
  assumes lens: "\<And>t d. get (put t d) = t" and upd: "\<And>r old. upd r old = ins r"
    and run: "execute_pages env tbl get put (insert_on_conflict key ins upd []) pages w = (Inr (), w')"
  shows "get (working w') = put_rows key ins (get (working w)) (concat pages) \<and>
     trace w' = trace w @ map (\<lambda>p. DbExecute tbl (length p)) pages \<and>
     (\<forall>p \<in> set pages. stmt_ok key p) \<and> (pages = [] \<or> execute_fault env tbl = None)"
  using run
proof (induction pages arbitrary: w)
  case Nil
  then show ?case by simp
next
  case (Cons page pages)
  let ?w1 = "emit (DbExecute tbl (length page)) w"
  from Cons.prems have nofault: "execute_fault env tbl = None"
    by (simp add: Let_def split: option.splits)
  from Cons.prems nofault obtain t where
    t: "insert_on_conflict key ins upd [] page (get (working ?w1)) = Inr t" and
    rest: "execute_pages env tbl get put (insert_on_conflict key ins upd []) pages
        (?w1\<lparr>working := put t (working ?w1)\<rparr>) = (Inr (), w')"
    by (auto simp: Let_def split: sum.splits)
  from t have ok: "stmt_ok key page" and tdef: "t = put_rows key ins (get (working w)) page"
    by (simp_all add: insert_on_conflict_iff [OF upd])
  from Cons.IH [OF rest] show ?case
    by (simp add: lens ok tdef nofault put_rows_append)
qed

lemma execute_pages_succeeds:
  assumes upd: "\<And>r old. upd r old = ins r"
    and "pages = [] \<or> execute_fault env tbl = None" and "\<forall>p \<in> set pages. stmt_ok key p"
  shows "\<exists>w'. execute_pages env tbl get put (insert_on_conflict key ins upd []) pages w = (Inr (), w')"
  using assms(2,3)
proof (induction pages arbitrary: w)
  case Nil
  then show ?case by simp
next
  case (Cons page pages)
  let ?w1 = "emit (DbExecute tbl (length page)) w"
  from Cons.prems have nofault: "execute_fault env tbl = None" and ok: "stmt_ok key page"
    by simp_all
  from ok have t: "insert_on_conflict key ins upd [] page (get (working w)) =
      Inr (put_rows key ins (get (working w)) page)"
    by (simp add: insert_on_conflict_iff [OF upd])
  obtain w' where w': "execute_pages env tbl get put (insert_on_conflict key ins upd []) pages
      (?w1\<lparr>working := put (put_rows key ins (get (working w)) page) (working w)\<rparr>) = (Inr (), w')"
    using Cons.IH [of "?w1\<lparr>working := put (put_rows key ins (get (working w)) page) (working w)\<rparr>"]
      Cons.prems nofault by auto
  have "execute_pages env tbl get put (insert_on_conflict key ins upd []) (page # pages) w = (Inr (), w')"
    by (simp add: Let_def nofault t w')
  then show ?case by blast
qed

section \<open>Facts about the stages\<close>

lemma sync_honors_stage:
  "sync_honors = sync_stage ''honors.json'' ''honors'' honors (\<lambda>t d. d\<lparr>honors := t\<rparr>)
     honors_sql honors_tuple"
  by (simp add: fun_eq_iff sync_honors_def sync_stage_def)

lemma sync_bonds_honors_stage:
  "sync_bonds_honors = sync_stage ''bondsHonors.json'' ''bonds_honors'' bonds_honors
     (\<lambda>t d. d\<lparr>bonds_honors := t\<rparr>) bonds_honors_sql bonds_honors_tuple"
  by (simp add: fun_eq_iff sync_bonds_honors_def sync_stage_def)

lemma sync_honor_groups_stage:
  "sync_honor_groups = sync_stage ''honorGroups.json'' ''honor_groups'' honor_groups
     (\<lambda>t d. d\<lparr>honor_groups := t\<rparr>) honor_groups_sql honor_groups_tuple"
  by (simp add: fun_eq_iff sync_honor_groups_def sync_stage_def)

lemma sync_stage_skip:
  "fetch_json env self file w = (Inr None, w1) \<Longrightarrow>
     sync_stage file tbl get put sql tuple env self w = (Inr 0, w1)"
  "fetch_json env self file w = (Inr (Some data), w1) \<Longrightarrow> \<not> py_truthy data \<Longrightarrow>
     sync_stage file tbl get put sql tuple env self w = (Inr 0, w1)"
  by (simp_all add: sync_stage_def)

lemma sync_stage_frame:
  "\<exists>us ns. committed (snd (sync_stage file tbl get put sql tuple env self w)) = committed w \<and>
     trace (snd (sync_stage file tbl get put sql tuple env self w)) =
       trace w @ map HttpGet us @ map (DbExecute tbl) ns"
proof -
  obtain r w1 where f: "fetch_json env self file w = (r, w1)" by (cases "fetch_json env self file w")
  obtain us where "snd (fetch_json env self file w) = w\<lparr>trace := trace w @ map HttpGet us\<rparr>"
    using fetch_json_world by blast
  with f have w1: "w1 = w\<lparr>trace := trace w @ map HttpGet us\<rparr>" by simp
  have stay: "committed w1 = committed w \<and> trace w1 = trace w @ map HttpGet us @ map (DbExecute tbl) []"
    by (simp add: w1)
  have go: "committed (snd (execute_values env tbl get put s records w1)) = committed w \<and>
      (\<exists>ns. trace (snd (execute_values env tbl get put s records w1)) =
        trace w @ map HttpGet us @ map (DbExecute tbl) ns)" for s records
    using execute_pages_frame [of env tbl get put s "paginate 100 records" w1]
    by (simp add: execute_values_def w1)
  have "snd (sync_stage file tbl get put sql tuple env self w) = w1 \<or>
      (\<exists>records. snd (sync_stage file tbl get put sql tuple env self w) =
         snd (execute_values env tbl get put (sql (current_timestamp env)) records w1))"
    by (auto simp: sync_stage_def f split: sum.splits option.splits prod.splits) (metis snd_conv)+
  then show ?thesis
  proof
    assume "snd (sync_stage file tbl get put sql tuple env self w) = w1"
    with stay show ?thesis by metis
  next
    assume "\<exists>records. snd (sync_stage file tbl get put sql tuple env self w) =
         snd (execute_values env tbl get put (sql (current_timestamp env)) records w1)"
    then obtain records where "snd (sync_stage file tbl get put sql tuple env self w) =
         snd (execute_values env tbl get put (sql (current_timestamp env)) records w1)" ..
    with go [of "sql (current_timestamp env)" records] show ?thesis by metis
  qed
qed

lemma sync_stage_uncommitted:
  "uncommitted w (snd (sync_stage file tbl get put sql tuple env self w))"
proof -
  obtain us ns where
    "committed (snd (sync_stage file tbl get put sql tuple env self w)) = committed w"
    "trace (snd (sync_stage file tbl get put sql tuple env self w)) =
       trace w @ map HttpGet us @ map (DbExecute tbl) ns"
    using sync_stage_frame by blast
  moreover have "DbCommit \<notin> set (map HttpGet us @ map (DbExecute tbl) ns)" by auto
  ultimately show ?thesis unfolding uncommitted_def by blast
qed

lemma sync_stage_returns:
  assumes lens: "\<And>t d. get (put t d) = t" and upd: "\<And>ts r old. upd ts r old = ins ts r"
    and ret: "sync_stage file tbl get put (\<lambda>ts. insert_on_conflict key (ins ts) (upd ts) []) tuple
        env self w = (Inr n, w')"
  shows "(n = 0 \<and> (\<exists>data. fetch_json env self file w = (Inr data, w') \<and>
            (case data of None \<Rightarrow> True | Some d \<Rightarrow> \<not> py_truthy d))) \<or>
     (\<exists>data items records w1.
        fetch_json env self file w = (Inr (Some data), w1) \<and> py_truthy data \<and>
        py_iter data = Inr items \<and> map_items (tuple (server self)) items = Inr records \<and>
        n = length records \<and>
        get (working w') =
          put_rows key (ins (current_timestamp env)) (get (working w1)) records \<and>
        trace w' = trace w1 @ map (\<lambda>p. DbExecute tbl (length p)) (paginate 100 records) \<and>
        (\<forall>p \<in> set (paginate 100 records). stmt_ok key p))"
proof -
  obtain r w1 where f: "fetch_json env self file w = (r, w1)" by (cases "fetch_json env self file w")
  show ?thesis
  proof (cases r)
    case (Inl e)
    with f ret show ?thesis by (simp add: sync_stage_def)
  next
    case (Inr data)
    show ?thesis
    proof (cases data)
      case None
      with f Inr ret show ?thesis by (simp add: sync_stage_def)
    next
      case (Some d)
      show ?thesis
      proof (cases "py_truthy d")
        case False
        with f Inr Some ret show ?thesis by (simp add: sync_stage_def)
      next
        case True
        with f Inr Some ret obtain items records where
          it: "py_iter d = Inr items" and
          rc: "map_items (tuple (server self)) items = Inr records" and
          ex: "execute_values env tbl get put
             (insert_on_conflict key (ins (current_timestamp env)) (upd (current_timestamp env)) [])
             records w1 = (Inr (), w')" and
          n: "n = length records"
          by (auto simp: sync_stage_def split: sum.splits prod.splits)
        from ex have "execute_pages env tbl get put
             (insert_on_conflict key (ins (current_timestamp env)) (upd (current_timestamp env)) [])
             (paginate 100 records) w1 = (Inr (), w')"
          by (simp add: execute_values_def)
        from execute_pages_success [OF lens upd this]
        have "get (working w') =
            put_rows key (ins (current_timestamp env)) (get (working w1)) records \<and>
          trace w' = trace w1 @ map (\<lambda>p. DbExecute tbl (length p)) (paginate 100 records) \<and>
          (\<forall>p \<in> set (paginate 100 records). stmt_ok key p)"
          by (simp add: paginate_concat)
        with f Inr Some True it rc n show ?thesis by blast
      qed
    qed
  qed
qed

lemma sync_stage_submitted:
  assumes lens: "\<And>t d. get (put t d) = t" and upd: "\<And>ts r old. upd ts r old = ins ts r"
    and ret: "sync_stage file tbl get put (\<lambda>ts. insert_on_conflict key (ins ts) (upd ts) []) tuple
        env self w = (Inr n, w')"
  shows "submitted tbl (trace w') = submitted tbl (trace w) + n"
proof -
  have fetch: "submitted tbl (trace w1) = submitted tbl (trace w)"
    if "fetch_json env self file w = (r, w1)" for r w1
  proof -
    obtain us where "snd (fetch_json env self file w) = w\<lparr>trace := trace w @ map HttpGet us\<rparr>"
      using fetch_json_world by blast
    with that have "trace w1 = trace w @ map HttpGet us" by simp
    then show ?thesis by (simp add: submitted_append submitted_HttpGet)
  qed
  from sync_stage_returns [OF lens upd ret] show ?thesis
  proof
    assume "n = 0 \<and> (\<exists>data. fetch_json env self file w = (Inr data, w') \<and>
            (case data of None \<Rightarrow> True | Some d \<Rightarrow> \<not> py_truthy d))"
    then show ?thesis using fetch by auto
  next
    assume "\<exists>data items records w1.
        fetch_json env self file w = (Inr (Some data), w1) \<and> py_truthy data \<and>
        py_iter data = Inr items \<and> map_items (tuple (server self)) items = Inr records \<and>
        n = length records \<and>
        get (working w') =
          put_rows key (ins (current_timestamp env)) (get (working w1)) records \<and>
        trace w' = trace w1 @ map (\<lambda>p. DbExecute tbl (length p)) (paginate 100 records) \<and>
        (\<forall>p \<in> set (paginate 100 records). stmt_ok key p)"
    then obtain data items records w1 where
      f: "fetch_json env self file w = (Inr (Some data), w1)" and
      "map_items (tuple (server self)) items = Inr records" and n: "n = length records" and
      tr: "trace w' = trace w1 @ map (\<lambda>p. DbExecute tbl (length p)) (paginate 100 records)"
      by blast
    from tr have "submitted tbl (trace w') = submitted tbl (trace w1) + length records"
      by (simp add: submitted_append submitted_DbExecute paginate_concat)
    with fetch [OF f] n show ?thesis by simp
  qed
qed

lemma honors_replace: "honors_do_update ts r old = honors_insert ts r"
  by (simp add: honors_do_update_def honors_insert_def)

lemma bonds_honors_replace: "bonds_honors_do_update ts r old = bonds_honors_insert ts r"
  by (simp add: bonds_honors_do_update_def bonds_honors_insert_def)

lemma honor_groups_replace: "honor_groups_do_update ts r old = honor_groups_insert ts r"
  by (simp add: honor_groups_do_update_def honor_groups_insert_def)

lemma honors_sql_eq:
  "honors_sql = (\<lambda>ts. insert_on_conflict honors_key (honors_insert ts) (honors_do_update ts) [])"
  by (simp add: fun_eq_iff honors_sql_def)

lemma bonds_honors_sql_eq:
  "bonds_honors_sql =
     (\<lambda>ts. insert_on_conflict bonds_honors_key (bonds_honors_insert ts) (bonds_honors_do_update ts) [])"
  by (simp add: fun_eq_iff bonds_honors_sql_def)

lemma honor_groups_sql_eq:
  "honor_groups_sql =
     (\<lambda>ts. insert_on_conflict honor_groups_key (honor_groups_insert ts) (honor_groups_do_update ts) [])"
  by (simp add: fun_eq_iff honor_groups_sql_def)

lemma sync_honors_submitted:
  "sync_honors env self w = (Inr n, w') \<Longrightarrow>
     submitted ''honors'' (trace w') = submitted ''honors'' (trace w) + n"
  unfolding sync_honors_stage honors_sql_eq
  by (rule sync_stage_submitted [where get = honors and upd = honors_do_update])
     (simp_all add: honors_replace)

lemma sync_bonds_honors_submitted:
  "sync_bonds_honors env self w = (Inr n, w') \<Longrightarrow>
     submitted ''bonds_honors'' (trace w') = submitted ''bonds_honors'' (trace w) + n"
  unfolding sync_bonds_honors_stage bonds_honors_sql_eq
  by (rule sync_stage_submitted [where get = bonds_honors and upd = bonds_honors_do_update])
     (simp_all add: bonds_honors_replace)

lemma sync_honor_groups_submitted:
  "sync_honor_groups env self w = (Inr n, w') \<Longrightarrow>
     submitted ''honor_groups'' (trace w') = submitted ''honor_groups'' (trace w) + n"
  unfolding sync_honor_groups_stage honor_groups_sql_eq
  by (rule sync_stage_submitted [where get = honor_groups and upd = honor_groups_do_update])
     (simp_all add: honor_groups_replace)

section \<open>Facts about the run\<close>

lemma uncommitted_refl: "uncommitted w w"
  by (simp add: uncommitted_def)

lemma uncommitted_trans: "uncommitted a b \<Longrightarrow> uncommitted b c \<Longrightarrow> uncommitted a c"
  unfolding uncommitted_def
proof (elim conjE exE)
  fix evs evs'
  assume "committed b = committed a" "committed c = committed b"
    "trace b = trace a @ evs" "DbCommit \<notin> set evs"
    "trace c = trace b @ evs'" "DbCommit \<notin> set evs'"
  then have "committed c = committed a \<and> trace c = trace a @ (evs @ evs') \<and> DbCommit \<notin> set (evs @ evs')"
    by simp
  then show "committed c = committed a \<and> (\<exists>evs. trace c = trace a @ evs \<and> DbCommit \<notin> set evs)"
    by blast
qed

lemma sync_honors_uncommitted: "uncommitted w (snd (sync_honors env self w))"
  unfolding sync_honors_stage by (rule sync_stage_uncommitted)

lemma sync_bonds_honors_uncommitted: "uncommitted w (snd (sync_bonds_honors env self w))"
  unfolding sync_bonds_honors_stage by (rule sync_stage_uncommitted)

lemma sync_honor_groups_uncommitted: "uncommitted w (snd (sync_honor_groups env self w))"
  unfolding sync_honor_groups_stage by (rule sync_stage_uncommitted)

lemma run_unfold:
  "run env self w =
     (case sync_honors env self w of
        (Inl e, w1) \<Rightarrow> run_failed env e (start_results self) w1
      | (Inr n1, w1) \<Rightarrow>
          (case sync_bonds_honors env self w1 of
             (Inl e, w2) \<Rightarrow> run_failed env e ((start_results self)\<lparr>res_honors := n1\<rparr>) w2
           | (Inr n2, w2) \<Rightarrow>
               (case sync_honor_groups env self w2 of
                  (Inl e, w3) \<Rightarrow>
                    run_failed env e ((start_results self)\<lparr>res_honors := n1, res_bonds_honors := n2\<rparr>) w3
                | (Inr n3, w3) \<Rightarrow>
                    (case commit env w3 of
                       (Inl e, w4) \<Rightarrow>
                         run_failed env e ((start_results self)\<lparr>res_honors := n1, res_bonds_honors := n2,
                           res_honor_groups := n3\<rparr>) w4
                     | (Inr u, w4) \<Rightarrow>
                         (Inr ((start_results self)\<lparr>res_honors := n1, res_bonds_honors := n2,
                            res_honor_groups := n3, res_success := True\<rparr>), w4)))))"
  by (simp add: run_def start_results_def Let_def split: prod.splits sum.splits)

lemma run_raise1:
  "sync_honors env self w = (Inl e, w1) \<Longrightarrow> run env self w = run_failed env e (start_results self) w1"
  by (simp add: run_unfold)

lemma run_raise2:
  "sync_honors env self w = (Inr n1, w1) \<Longrightarrow> sync_bonds_honors env self w1 = (Inl e, w2) \<Longrightarrow>
   run env self w = run_failed env e ((start_results self)\<lparr>res_honors := n1\<rparr>) w2"
  by (simp add: run_unfold)

lemma run_raise3:
  "sync_honors env self w = (Inr n1, w1) \<Longrightarrow> sync_bonds_honors env self w1 = (Inr n2, w2) \<Longrightarrow>
   sync_honor_groups env self w2 = (Inl e, w3) \<Longrightarrow>
   run env self w =
     run_failed env e ((start_results self)\<lparr>res_honors := n1, res_bonds_honors := n2\<rparr>) w3"
  by (simp add: run_unfold)

lemma run_raise4:
  "sync_honors env self w = (Inr n1, w1) \<Longrightarrow> sync_bonds_honors env self w1 = (Inr n2, w2) \<Longrightarrow>
   sync_honor_groups env self w2 = (Inr n3, w3) \<Longrightarrow> commit env w3 = (Inl e, w4) \<Longrightarrow>
   run env self w =
     run_failed env e ((start_results self)\<lparr>res_honors := n1, res_bonds_honors := n2,
       res_honor_groups := n3\<rparr>) w4"
  by (simp add: run_unfold)

lemma run_returns:
  "sync_honors env self w = (Inr n1, w1) \<Longrightarrow> sync_bonds_honors env self w1 = (Inr n2, w2) \<Longrightarrow>
   sync_honor_groups env self w2 = (Inr n3, w3) \<Longrightarrow> commit_fault env = None \<Longrightarrow>
   run env self w =
     (Inr ((start_results self)\<lparr>res_honors := n1, res_bonds_honors := n2,
        res_honor_groups := n3, res_success := True\<rparr>),
      (emit DbCommit w3)\<lparr>committed := working w3\<rparr>)"
  by (simp add: run_unfold commit_def Let_def)


lemma run_failed_eq:
  "run_failed env e res w =
     (case rollback_fault env of
        None \<Rightarrow>
          (Inr (res\<lparr>res_error := Some (str_exn e)\<rparr>),
           (emit DbRollback w)\<lparr>working := committed w\<rparr>)
      | Some m \<Rightarrow> (Inl (DatabaseError m), emit DbRollback w))"
  by (simp add: run_failed_def rollback_def Let_def split: option.split)

lemma run_failed_world:
  "committed w1 = committed w \<Longrightarrow>
     committed (snd (run_failed env e res w1)) = committed w \<and>
     (rollback_fault env = None \<longrightarrow>
        working (snd (run_failed env e res w1)) = committed w \<and>
        fst (run_failed env e res w1) = Inr (res\<lparr>res_error := Some (str_exn e)\<rparr>)) \<and>
     (\<forall>m. rollback_fault env = Some m \<longrightarrow>
        fst (run_failed env e res w1) = Inl (DatabaseError m))"
  by (simp add: run_failed_eq split: option.split)




lemma run_failed_summary:
  "fst (run_failed env e res0 w) = Inr res \<Longrightarrow> res = res0\<lparr>res_error := Some (str_exn e)\<rparr>"
  by (cases "rollback_fault env") (auto simp: run_failed_eq)

lemma run_cases:
  "(\<exists>e res0 w1. run env self w = run_failed env e res0 w1 \<and>
      res_server res0 = server self \<and> res_server_name res0 = SERVER_NAMES (server self) \<and>
      \<not> res_success res0) \<or>
   (\<exists>res w1. run env self w = (Inr res, w1) \<and>
      res_server res = server self \<and> res_server_name res = SERVER_NAMES (server self) \<and>
      res_success res \<and> res_error res = None)"
proof -
  obtain r1 w1 where s1: "sync_honors env self w = (r1, w1)" by (cases "sync_honors env self w")
  obtain r2 w2 where s2: "sync_bonds_honors env self w1 = (r2, w2)"
    by (cases "sync_bonds_honors env self w1")
  obtain r3 w3 where s3: "sync_honor_groups env self w2 = (r3, w3)"
    by (cases "sync_honor_groups env self w2")
  obtain r4 w4 where s4: "commit env w3 = (r4, w4)" by (cases "commit env w3")
  show ?thesis
  proof (cases r1)
    case (Inl e)
    with s1 have "run env self w = run_failed env e (start_results self) w1"
      by (simp add: run_raise1)
    then show ?thesis by (intro disjI1 exI conjI) (assumption, simp_all add: start_results_def)
  next
    case n1: (Inr n1)
    show ?thesis
    proof (cases r2)
      case (Inl e)
      with s1 s2 n1 have "run env self w =
          run_failed env e ((start_results self)\<lparr>res_honors := n1\<rparr>) w2"
        by (simp add: run_raise2)
      then show ?thesis by (intro disjI1 exI conjI) (assumption, simp_all add: start_results_def)
    next
      case n2: (Inr n2)
      show ?thesis
      proof (cases r3)
        case (Inl e)
        with s1 s2 s3 n1 n2 have "run env self w =
            run_failed env e ((start_results self)\<lparr>res_honors := n1, res_bonds_honors := n2\<rparr>) w3"
          by (simp add: run_raise3)
        then show ?thesis by (intro disjI1 exI conjI) (assumption, simp_all add: start_results_def)
      next
        case n3: (Inr n3)
        show ?thesis
        proof (cases r4)
          case (Inl e)
          with s1 s2 s3 s4 n1 n2 n3 have "run env self w =
              run_failed env e ((start_results self)\<lparr>res_honors := n1, res_bonds_honors := n2,
                res_honor_groups := n3\<rparr>) w4"
            by (simp add: run_raise4)
          then show ?thesis by (intro disjI1 exI conjI) (assumption, simp_all add: start_results_def)
        next
          case (Inr u)
          with s1 s2 s3 s4 n1 n2 n3 have "run env self w =
              (Inr ((start_results self)\<lparr>res_honors := n1, res_bonds_honors := n2,
                 res_honor_groups := n3, res_success := True\<rparr>), w4)"
            by (simp add: run_unfold)
          then show ?thesis by (intro disjI2 exI conjI) (assumption, simp_all add: start_results_def)
        qed
      qed
    qed
  qed
qed

lemma run_summary_names:
  assumes "fst (run env self w) = Inr res"
  shows "res_server res = server self \<and> res_server_name res = SERVER_NAMES (server self)"
  using run_cases [of env self w]
proof (elim disjE exE conjE)
  fix e res0 w1
  assume r: "run env self w = run_failed env e res0 w1"
    and "res_server res0 = server self" "res_server_name res0 = SERVER_NAMES (server self)"
  moreover from assms r have "res = res0\<lparr>res_error := Some (str_exn e)\<rparr>"
    by (simp add: run_failed_summary)
  ultimately show ?thesis by simp
next
  fix res' w1
  assume "run env self w = (Inr res', w1)" "res_server res' = server self"
    "res_server_name res' = SERVER_NAMES (server self)"
  with assms show ?thesis by simp
qed

section \<open>Evaluation on the concrete inputs\<close>

lemmas eval_defs =
  fetch_json_def Let_def emit_def RAW_URL_TEMPLATE_def CDN_URL_TEMPLATE_def
  execute_values_def honors_sql_def bonds_honors_sql_def honor_groups_sql_def
  honors_tuple_def bonds_honors_tuple_def honor_groups_tuple_def dict_get_def
  honors_key_def bonds_honors_key_def honor_groups_key_def key_is_null_def
  honors_insert_def bonds_honors_insert_def honor_groups_insert_def
  example_syncer_def example_world_def example_honors_def example_groups_def empty_db_def

lemma paginate_small: "xs \<noteq> [] \<Longrightarrow> length xs \<le> 100 \<Longrightarrow> paginate 100 xs = [xs]"
  by (simp add: paginate.simps [of 100 xs] paginate.simps [of 100 "[]"])

lemma broken_stage1:
  "sync_honors broken_env example_syncer example_world = (Inr 2, broken_world1)"
proof -
  have "fst (sync_honors broken_env example_syncer example_world) = Inr 2"
    by (simp add: sync_honors_def broken_env_def eval_defs paginate_small)
  then show ?thesis by (simp add: broken_world1_def prod_eq_iff)
qed

lemma broken_stage2:
  "sync_bonds_honors broken_env example_syncer broken_world1 = (Inr 0, broken_world2)"
proof -
  have "fst (sync_bonds_honors broken_env example_syncer w) = Inr 0" for w
    by (simp add: sync_bonds_honors_def broken_env_def eval_defs)
  then show ?thesis by (simp add: broken_world2_def prod_eq_iff)
qed

lemma broken_stage3:
  "sync_honor_groups broken_env example_syncer broken_world2 =
     (Inl (DatabaseError ''server closed the connection unexpectedly''), broken_world3)"
proof -
  have "fst (sync_honor_groups broken_env example_syncer w) =
      Inl (DatabaseError ''server closed the connection unexpectedly'')" for w
    by (simp add: sync_honor_groups_def broken_env_def eval_defs paginate_small)
  then show ?thesis by (simp add: broken_world3_def prod_eq_iff)
qed


section \<open>Atomicity of a run\<close>


lemma lost_stages:
  "fst (sync_honors lost_env example_syncer w) = Inr 2"
  "fst (sync_bonds_honors lost_env example_syncer w) = Inr 0"
  "fst (sync_honor_groups lost_env example_syncer w) =
     Inl (DatabaseError ''server closed the connection unexpectedly'')"
  by (simp_all add: sync_honors_def sync_bonds_honors_def sync_honor_groups_def
      lost_env_def broken_env_def eval_defs paginate_small)




section \<open>The summary of a failed run\<close>

lemma run_success_iff_no_error:
  assumes "fst (run env self w) = Inr res"
  shows "res_success res \<longleftrightarrow> res_error res = None"
  using run_cases [of env self w]
proof (elim disjE exE conjE)
  fix e res0 w1
  assume r: "run env self w = run_failed env e res0 w1" and ns: "\<not> res_success res0"
  from assms r have "res = res0\<lparr>res_error := Some (str_exn e)\<rparr>"
    by (simp add: run_failed_summary)
  with ns show ?thesis by simp
next
  fix res' w1
  assume "run env self w = (Inr res', w1)" "res_success res'" "res_error res' = None"
  with assms show ?thesis by simp
qed

text \<open>
  C10. Every summary that \<open>run\<close> returns has its success flag true exactly when its
  error is \<^verbatim>\<open>None\<close>. When the second or the third stage raises, \<open>run\<close> returns a summary
  unless the rollback raises in its turn, and then leaves with the rollback's exception;
  in the summary the counts of the stages that returned before the exception are the
  numbers those stages returned, each the number of rows the stage submitted to its
  table, the count of the raising stage and of the stages after it is 0, the error is the
  text of the exception, and the committed content is what it was before the run.
\<close>

theorem summary_after_failure:
  "(\<forall>res. fst (run env self w) = Inr res \<longrightarrow> (res_success res \<longleftrightarrow> res_error res = None)) \<and>
   (sync_honors env self w = (Inr n1, w1) \<and> sync_bonds_honors env self w1 = (Inl e, w2) \<longrightarrow>
      (\<forall>res. fst (run env self w) = Inr res \<longrightarrow>
         res_honors res = n1 \<and> res_bonds_honors res = 0 \<and> res_honor_groups res = 0 \<and>
         res_error res = Some (str_exn e) \<and> \<not> res_success res) \<and>
      (rollback_fault env = None \<longrightarrow> (\<exists>res. fst (run env self w) = Inr res)) \<and>
      (\<forall>m. rollback_fault env = Some m \<longrightarrow> fst (run env self w) = Inl (DatabaseError m)) \<and>
      submitted ''honors'' (trace w1) = submitted ''honors'' (trace w) + n1 \<and>
      committed (snd (run env self w)) = committed w) \<and>
   (sync_honors env self w = (Inr n1, w1) \<and> sync_bonds_honors env self w1 = (Inr n2, w2) \<and>
    sync_honor_groups env self w2 = (Inl e, w3) \<longrightarrow>
      (\<forall>res. fst (run env self w) = Inr res \<longrightarrow>
         res_honors res = n1 \<and> res_bonds_honors res = n2 \<and> res_honor_groups res = 0 \<and>
         res_error res = Some (str_exn e) \<and> \<not> res_success res) \<and>
      (rollback_fault env = None \<longrightarrow> (\<exists>res. fst (run env self w) = Inr res)) \<and>
      (\<forall>m. rollback_fault env = Some m \<longrightarrow> fst (run env self w) = Inl (DatabaseError m)) \<and>
      submitted ''honors'' (trace w1) = submitted ''honors'' (trace w) + n1 \<and>
      submitted ''bonds_honors'' (trace w2) = submitted ''bonds_honors'' (trace w1) + n2 \<and>
      committed (snd (run env self w)) = committed w)"
proof (intro conjI impI allI)
  fix res assume "fst (run env self w) = Inr res"
  then show "res_success res \<longleftrightarrow> res_error res = None"
    by (rule run_success_iff_no_error)
next
  assume a: "sync_honors env self w = (Inr n1, w1) \<and> sync_bonds_honors env self w1 = (Inl e, w2)"
  then have s1: "sync_honors env self w = (Inr n1, w1)"
    and s2: "sync_bonds_honors env self w1 = (Inl e, w2)" by simp_all
  have r: "run env self w = run_failed env e ((start_results self)\<lparr>res_honors := n1\<rparr>) w2"
    by (rule run_raise2 [OF s1 s2])
  have "uncommitted w w1" using sync_honors_uncommitted [of w env self] s1 by simp
  moreover have "uncommitted w1 w2" using sync_bonds_honors_uncommitted [of w1 env self] s2 by simp
  ultimately have "uncommitted w w2" by (rule uncommitted_trans)
  then have c: "committed w2 = committed w" by (simp add: uncommitted_def)
  {
    fix res assume "fst (run env self w) = Inr res"
    then have res: "res = (start_results self)\<lparr>res_honors := n1, res_error := Some (str_exn e)\<rparr>"
      unfolding r by (cases "rollback_fault env") (simp_all add: run_failed_eq)
    show "res_honors res = n1" and "res_bonds_honors res = 0" and "res_honor_groups res = 0"
      and "res_error res = Some (str_exn e)" and "\<not> res_success res"
      by (simp_all add: res start_results_def)
  }
  {
    assume "rollback_fault env = None"
    then show "\<exists>res. fst (run env self w) = Inr res" by (simp add: r run_failed_eq)
  }
  {
    fix m assume "rollback_fault env = Some m"
    then show "fst (run env self w) = Inl (DatabaseError m)" by (simp add: r run_failed_eq)
  }
  show "submitted ''honors'' (trace w1) = submitted ''honors'' (trace w) + n1"
    by (rule sync_honors_submitted [OF s1])
  show "committed (snd (run env self w)) = committed w"
    using run_failed_world [OF c] by (simp add: r)
next
  assume a: "sync_honors env self w = (Inr n1, w1) \<and> sync_bonds_honors env self w1 = (Inr n2, w2) \<and>
    sync_honor_groups env self w2 = (Inl e, w3)"
  then have s1: "sync_honors env self w = (Inr n1, w1)"
    and s2: "sync_bonds_honors env self w1 = (Inr n2, w2)"
    and s3: "sync_honor_groups env self w2 = (Inl e, w3)" by simp_all
  have r: "run env self w =
      run_failed env e ((start_results self)\<lparr>res_honors := n1, res_bonds_honors := n2\<rparr>) w3"
    by (rule run_raise3 [OF s1 s2 s3])
  have "uncommitted w w1" using sync_honors_uncommitted [of w env self] s1 by simp
  moreover have "uncommitted w1 w2" using sync_bonds_honors_uncommitted [of w1 env self] s2 by simp
  ultimately have "uncommitted w w2" by (rule uncommitted_trans)
  moreover have "uncommitted w2 w3" using sync_honor_groups_uncommitted [of w2 env self] s3 by simp
  ultimately have "uncommitted w w3" by (rule uncommitted_trans)
  then have c: "committed w3 = committed w" by (simp add: uncommitted_def)
  {
    fix res assume "fst (run env self w) = Inr res"
    then have res: "res = (start_results self)\<lparr>res_honors := n1, res_bonds_honors := n2,
        res_error := Some (str_exn e)\<rparr>"
      unfolding r by (cases "rollback_fault env") (simp_all add: run_failed_eq)
    show "res_honors res = n1" and "res_bonds_honors res = n2" and "res_honor_groups res = 0"
      and "res_error res = Some (str_exn e)" and "\<not> res_success res"
      by (simp_all add: res start_results_def)
  }
  {
    assume "rollback_fault env = None"
    then show "\<exists>res. fst (run env self w) = Inr res" by (simp add: r run_failed_eq)
  }
  {
    fix m assume "rollback_fault env = Some m"
    then show "fst (run env self w) = Inl (DatabaseError m)" by (simp add: r run_failed_eq)
  }
  show "submitted ''honors'' (trace w1) = submitted ''honors'' (trace w) + n1"
    by (rule sync_honors_submitted [OF s1])
  show "submitted ''bonds_honors'' (trace w2) = submitted ''bonds_honors'' (trace w1) + n2"
    by (rule sync_bonds_honors_submitted [OF s2])
  show "committed (snd (run env self w)) = committed w"
    using run_failed_world [OF c] by (simp add: r)
qed

theorem summary_after_failure_witness:
  "(\<exists>res. fst (run broken_env example_syncer example_world) = Inr res \<and>
      \<not> res_success res \<and>
      res_error res = Some ''server closed the connection unexpectedly'' \<and>
      res_honors res = 2 \<and> res_bonds_honors res = 0 \<and> res_honor_groups res = 0) \<and>
   submitted ''honors'' (trace broken_world1) = 2 \<and>
   submitted ''bonds_honors'' (trace broken_world2) = submitted ''bonds_honors'' (trace broken_world1) \<and>
   committed (snd (run broken_env example_syncer example_world)) = empty_db"
proof -
  note t = summary_after_failure [of broken_env example_syncer example_world 2 broken_world1
      "DatabaseError ''server closed the connection unexpectedly''" broken_world2 0 broken_world3]
  have stages: "sync_honors broken_env example_syncer example_world = (Inr 2, broken_world1) \<and>
      sync_bonds_honors broken_env example_syncer broken_world1 = (Inr 0, broken_world2) \<and>
      sync_honor_groups broken_env example_syncer broken_world2 =
        (Inl (DatabaseError ''server closed the connection unexpectedly''), broken_world3)"
    using broken_stage1 broken_stage2 broken_stage3 by simp
  have rb: "rollback_fault broken_env = None"
    by (simp add: broken_env_def)
  from t stages rb obtain res where res: "fst (run broken_env example_syncer example_world) = Inr res"
    by blast
  from t stages res have "res_honors res = 2 \<and> res_bonds_honors res = 0 \<and>
      res_honor_groups res = 0 \<and>
      res_error res = Some (str_exn (DatabaseError ''server closed the connection unexpectedly'')) \<and>
      \<not> res_success res"
    by blast
  then have summary: "\<exists>res. fst (run broken_env example_syncer example_world) = Inr res \<and>
      \<not> res_success res \<and>
      res_error res = Some ''server closed the connection unexpectedly'' \<and>
      res_honors res = 2 \<and> res_bonds_honors res = 0 \<and> res_honor_groups res = 0"
    using res by simp
  from t stages have rest: "submitted ''honors'' (trace broken_world1) =
      submitted ''honors'' (trace example_world) + 2 \<and>
    submitted ''bonds_honors'' (trace broken_world2) =
      submitted ''bonds_honors'' (trace broken_world1) + 0 \<and>
    committed (snd (run broken_env example_syncer example_world)) = committed example_world"
    by blast
  have "submitted ''honors'' (trace example_world) = 0"
    by (simp add: example_world_def)
  moreover have "committed example_world = empty_db"
    by (simp add: example_world_def)
  ultimately show ?thesis
    using summary rest by simp
qed

section \<open>Missing files\<close>

lemma fetch_json_absent:
  "absent env self file \<Longrightarrow> fetch_json env self file w = (Inr None, after_fetch self file w)"
  by (cases "http_get env (CDN_URL_TEMPLATE (repo self) file)")
     (simp_all add: absent_def after_fetch_def fetch_json_primary_failed)

lemma sync_honors_absent:
  "absent env self ''honors.json'' \<Longrightarrow>
     sync_honors env self w = (Inr 0, after_fetch self ''honors.json'' w)"
  unfolding sync_honors_stage by (rule sync_stage_skip(1)) (rule fetch_json_absent)

lemma sync_bonds_honors_absent:
  "absent env self ''bondsHonors.json'' \<Longrightarrow>
     sync_bonds_honors env self w = (Inr 0, after_fetch self ''bondsHonors.json'' w)"
  unfolding sync_bonds_honors_stage by (rule sync_stage_skip(1)) (rule fetch_json_absent)

lemma sync_honor_groups_absent:
  "absent env self ''honorGroups.json'' \<Longrightarrow>
     sync_honor_groups env self w = (Inr 0, after_fetch self ''honorGroups.json'' w)"
  unfolding sync_honor_groups_stage by (rule sync_stage_skip(1)) (rule fetch_json_absent)

lemma run_returns_summary:
  assumes "sync_honors env self w = (Inr n1, w1)" "sync_bonds_honors env self w1 = (Inr n2, w2)"
    "sync_honor_groups env self w2 = (Inr n3, w3)" "commit_fault env = None"
  shows "\<exists>res. fst (run env self w) = Inr res \<and> res_success res \<and> res_error res = None \<and>
     res_honors res = n1 \<and> res_bonds_honors res = n2 \<and> res_honor_groups res = n3"
  by (simp add: run_returns [OF assms] start_results_def)

text \<open>
  C5. When both candidate URLs of a file fail, the fetch returns \<^verbatim>\<open>None\<close> and raises
  nothing; the stage of that file returns 0 and leaves the world as the two requests
  left it, with no statement executed; and when the other two stages return and the
  commit is not refused, the run's summary has the success flag set, no error, and
  count 0 for that file.
\<close>

theorem missing_file_tolerated:
  "(absent env self file \<longrightarrow>
      fetch_json env self file w = (Inr None, after_fetch self file w)) \<and>
   (absent env self ''honors.json'' \<longrightarrow>
      sync_honors env self w = (Inr 0, after_fetch self ''honors.json'' w)) \<and>
   (absent env self ''bondsHonors.json'' \<longrightarrow>
      sync_bonds_honors env self w = (Inr 0, after_fetch self ''bondsHonors.json'' w)) \<and>
   (absent env self ''honorGroups.json'' \<longrightarrow>
      sync_honor_groups env self w = (Inr 0, after_fetch self ''honorGroups.json'' w)) \<and>
   (absent env self ''honors.json'' \<and>
    sync_bonds_honors env self (after_fetch self ''honors.json'' w) = (Inr n2, w2) \<and>
    sync_honor_groups env self w2 = (Inr n3, w3) \<and> commit_fault env = None \<longrightarrow>
      (\<exists>res. fst (run env self w) = Inr res \<and> res_success res \<and> res_error res = None \<and>
         res_honors res = 0 \<and> res_bonds_honors res = n2 \<and> res_honor_groups res = n3)) \<and>
   (sync_honors env self w = (Inr n1, w1) \<and> absent env self ''bondsHonors.json'' \<and>
    sync_honor_groups env self (after_fetch self ''bondsHonors.json'' w1) = (Inr n3, w3) \<and>
    commit_fault env = None \<longrightarrow>
      (\<exists>res. fst (run env self w) = Inr res \<and> res_success res \<and> res_error res = None \<and>
         res_honors res = n1 \<and> res_bonds_honors res = 0 \<and> res_honor_groups res = n3)) \<and>
   (sync_honors env self w = (Inr n1, w1) \<and> sync_bonds_honors env self w1 = (Inr n2, w2) \<and>
    absent env self ''honorGroups.json'' \<and> commit_fault env = None \<longrightarrow>
      (\<exists>res. fst (run env self w) = Inr res \<and> res_success res \<and> res_error res = None \<and>
         res_honors res = n1 \<and> res_bonds_honors res = n2 \<and> res_honor_groups res = 0))"
proof (intro conjI impI)
  assume "absent env self file"
  then show "fetch_json env self file w = (Inr None, after_fetch self file w)"
    by (rule fetch_json_absent)
next
  assume "absent env self ''honors.json''"
  then show "sync_honors env self w = (Inr 0, after_fetch self ''honors.json'' w)"
    by (rule sync_honors_absent)
next
  assume "absent env self ''bondsHonors.json''"
  then show "sync_bonds_honors env self w = (Inr 0, after_fetch self ''bondsHonors.json'' w)"
    by (rule sync_bonds_honors_absent)
next
  assume "absent env self ''honorGroups.json''"
  then show "sync_honor_groups env self w = (Inr 0, after_fetch self ''honorGroups.json'' w)"
    by (rule sync_honor_groups_absent)
next
  assume a: "absent env self ''honors.json'' \<and>
    sync_bonds_honors env self (after_fetch self ''honors.json'' w) = (Inr n2, w2) \<and>
    sync_honor_groups env self w2 = (Inr n3, w3) \<and> commit_fault env = None"
  then have s1: "sync_honors env self w = (Inr 0, after_fetch self ''honors.json'' w)"
    by (simp add: sync_honors_absent)
  from a have s2: "sync_bonds_honors env self (after_fetch self ''honors.json'' w) = (Inr n2, w2)"
    and s3: "sync_honor_groups env self w2 = (Inr n3, w3)" and c: "commit_fault env = None"
    by simp_all
  from run_returns_summary [OF s1 s2 s3 c]
  show "\<exists>res. fst (run env self w) = Inr res \<and> res_success res \<and> res_error res = None \<and>
      res_honors res = 0 \<and> res_bonds_honors res = n2 \<and> res_honor_groups res = n3"
    .
next
  assume a: "sync_honors env self w = (Inr n1, w1) \<and> absent env self ''bondsHonors.json'' \<and>
    sync_honor_groups env self (after_fetch self ''bondsHonors.json'' w1) = (Inr n3, w3) \<and>
    commit_fault env = None"
  then have s2: "sync_bonds_honors env self w1 = (Inr 0, after_fetch self ''bondsHonors.json'' w1)"
    by (simp add: sync_bonds_honors_absent)
  from a have s1: "sync_honors env self w = (Inr n1, w1)"
    and s3: "sync_honor_groups env self (after_fetch self ''bondsHonors.json'' w1) = (Inr n3, w3)"
    and c: "commit_fault env = None"
    by simp_all
  from run_returns_summary [OF s1 s2 s3 c]
  show "\<exists>res. fst (run env self w) = Inr res \<and> res_success res \<and> res_error res = None \<and>
      res_honors res = n1 \<and> res_bonds_honors res = 0 \<and> res_honor_groups res = n3"
    .
next
  assume a: "sync_honors env self w = (Inr n1, w1) \<and> sync_bonds_honors env self w1 = (Inr n2, w2) \<and>
    absent env self ''honorGroups.json'' \<and> commit_fault env = None"
  then have s3: "sync_honor_groups env self w2 = (Inr 0, after_fetch self ''honorGroups.json'' w2)"
    by (simp add: sync_honor_groups_absent)
  from a have s1: "sync_honors env self w = (Inr n1, w1)"
    and s2: "sync_bonds_honors env self w1 = (Inr n2, w2)"
    and c: "commit_fault env = None"
    by simp_all
  from run_returns_summary [OF s1 s2 s3 c]
  show "\<exists>res. fst (run env self w) = Inr res \<and> res_success res \<and> res_error res = None \<and>
      res_honors res = n1 \<and> res_bonds_honors res = n2 \<and> res_honor_groups res = 0"
    .
qed

lemma example_stage1:
  "sync_honors example_env example_syncer example_world = (Inr 2, example_world1)"
proof -
  have "fst (sync_honors example_env example_syncer example_world) = Inr 2"
    by (simp add: sync_honors_def example_env_def eval_defs paginate_small)
  then show ?thesis by (simp add: example_world1_def prod_eq_iff)
qed

lemma example_absent:
  "absent example_env example_syncer ''bondsHonors.json''"
  "absent example_env example_syncer ''honorGroups.json''"
  by (simp_all add: absent_def example_env_def example_syncer_def
      RAW_URL_TEMPLATE_def CDN_URL_TEMPLATE_def)

theorem missing_file_tolerated_witness:
  "fetch_json example_env example_syncer ''honorGroups.json'' example_world =
     (Inr None, after_fetch example_syncer ''honorGroups.json'' example_world) \<and>
   sync_bonds_honors example_env example_syncer example_world1 =
     (Inr 0, after_fetch example_syncer ''bondsHonors.json'' example_world1) \<and>
   (\<exists>res. fst (run example_env example_syncer example_world) = Inr res \<and>
      res_success res \<and> res_error res = None \<and>
      res_honors res = 2 \<and> res_bonds_honors res = 0 \<and> res_honor_groups res = 0)"
proof -
  have c: "commit_fault example_env = None" by (simp add: example_env_def)
  show ?thesis
    using missing_file_tolerated [of example_env example_syncer "''honorGroups.json''" example_world
        0 "after_fetch example_syncer ''bondsHonors.json'' example_world1" 0 example_world1 2
        example_world1]
      missing_file_tolerated [of example_env example_syncer "''honorGroups.json''" example_world1]
      example_stage1 example_absent c
    by simp
qed

section \<open>Empty snapshots\<close>

lemma fetch_json_store:
  assumes "fetch_json env self file w = (r, w1)"
  shows "working w1 = working w \<and> committed w1 = committed w \<and>
     submitted tbl (trace w1) = submitted tbl (trace w)"
proof -
  obtain us where "snd (fetch_json env self file w) = w\<lparr>trace := trace w @ map HttpGet us\<rparr>"
    using fetch_json_world by blast
  with assms have "w1 = w\<lparr>trace := trace w @ map HttpGet us\<rparr>" by simp
  then show ?thesis by (simp add: submitted_append submitted_HttpGet)
qed

text \<open>
  C9. In each of the three stages a fetch that returns the empty array and a fetch that
  returns \<^verbatim>\<open>None\<close> have the same outcome: the stage returns 0 in the world the fetch
  left. A fetch changes neither the transaction's view of the store nor the committed
  content and submits no row, so the empty snapshot does not reach the database.
\<close>

theorem empty_array_skipped:
  "(fetch_json env self ''honors.json'' w = (Inr (Some (JArr [])), w1) \<or>
    fetch_json env self ''honors.json'' w = (Inr None, w1) \<longrightarrow>
      sync_honors env self w = (Inr 0, w1)) \<and>
   (fetch_json env self ''bondsHonors.json'' w = (Inr (Some (JArr [])), w1) \<or>
    fetch_json env self ''bondsHonors.json'' w = (Inr None, w1) \<longrightarrow>
      sync_bonds_honors env self w = (Inr 0, w1)) \<and>
   (fetch_json env self ''honorGroups.json'' w = (Inr (Some (JArr [])), w1) \<or>
    fetch_json env self ''honorGroups.json'' w = (Inr None, w1) \<longrightarrow>
      sync_honor_groups env self w = (Inr 0, w1)) \<and>
   (fetch_json env self file w = (r, w1) \<longrightarrow>
      working w1 = working w \<and> committed w1 = committed w \<and>
      submitted tbl (trace w1) = submitted tbl (trace w))"
proof (intro conjI impI)
  assume "fetch_json env self ''honors.json'' w = (Inr (Some (JArr [])), w1) \<or>
    fetch_json env self ''honors.json'' w = (Inr None, w1)"
  then show "sync_honors env self w = (Inr 0, w1)"
    unfolding sync_honors_stage by (auto intro: sync_stage_skip)
next
  assume "fetch_json env self ''bondsHonors.json'' w = (Inr (Some (JArr [])), w1) \<or>
    fetch_json env self ''bondsHonors.json'' w = (Inr None, w1)"
  then show "sync_bonds_honors env self w = (Inr 0, w1)"
    unfolding sync_bonds_honors_stage by (auto intro: sync_stage_skip)
next
  assume "fetch_json env self ''honorGroups.json'' w = (Inr (Some (JArr [])), w1) \<or>
    fetch_json env self ''honorGroups.json'' w = (Inr None, w1)"
  then show "sync_honor_groups env self w = (Inr 0, w1)"
    unfolding sync_honor_groups_stage by (auto intro: sync_stage_skip)
next
  assume "fetch_json env self file w = (r, w1)"
  then show "working w1 = working w" and "committed w1 = committed w"
    and "submitted tbl (trace w1) = submitted tbl (trace w)"
    using fetch_json_store by blast+
qed

lemma empty_env_fetch:
  "fetch_json empty_env example_syncer ''honors.json'' example_world =
     (Inr (Some (JArr [])),
      example_world\<lparr>trace :=
        [HttpGet ''https://raw.githubusercontent.com/Team-Haruki/haruki-sekai-master/main/master/honors.json'']\<rparr>)"
  by (simp add: empty_env_def eval_defs)

lemma empty_env_absent: "absent empty_env example_syncer ''honorGroups.json''"
  by (simp add: absent_def empty_env_def example_syncer_def RAW_URL_TEMPLATE_def CDN_URL_TEMPLATE_def)

theorem empty_array_skipped_witness:
  "sync_honors empty_env example_syncer example_world =
     (Inr 0, example_world\<lparr>trace :=
        [HttpGet ''https://raw.githubusercontent.com/Team-Haruki/haruki-sekai-master/main/master/honors.json'']\<rparr>) \<and>
   sync_honor_groups empty_env example_syncer example_world =
     (Inr 0, after_fetch example_syncer ''honorGroups.json'' example_world) \<and>
   working (after_fetch example_syncer ''honorGroups.json'' example_world) = working example_world \<and>
   committed (after_fetch example_syncer ''honorGroups.json'' example_world) =
     committed example_world \<and>
   submitted ''honor_groups'' (trace (after_fetch example_syncer ''honorGroups.json'' example_world)) =
     submitted ''honor_groups'' (trace example_world)"
  using
    empty_array_skipped [of empty_env example_syncer example_world
      "example_world\<lparr>trace :=
        [HttpGet ''https://raw.githubusercontent.com/Team-Haruki/haruki-sekai-master/main/master/honors.json'']\<rparr>"]
    empty_array_skipped [of empty_env example_syncer example_world
      "after_fetch example_syncer ''honorGroups.json'' example_world"
      "''honorGroups.json''" "Inr None" "''honor_groups''"]
    empty_env_fetch fetch_json_absent [OF empty_env_absent, of example_world]
  by simp

section \<open>The exit status\<close>

lemma example_env_honors:
  "fst (sync_honors example_env example_syncer w) = Inr 2"
  by (simp add: sync_honors_def example_env_def eval_defs paginate_small)

lemma example_env_run:
  "\<exists>res. fst (run example_env example_syncer w) = Inr res \<and> res_success res"
proof -
  let ?w1 = "snd (sync_honors example_env example_syncer w)"
  have s1: "sync_honors example_env example_syncer w = (Inr 2, ?w1)"
    using example_env_honors [of w] by (simp add: prod_eq_iff)
  have s2: "sync_bonds_honors example_env example_syncer ?w1 =
      (Inr 0, after_fetch example_syncer ''bondsHonors.json'' ?w1)"
    by (rule sync_bonds_honors_absent) (rule example_absent)
  have s3: "sync_honor_groups example_env example_syncer
      (after_fetch example_syncer ''bondsHonors.json'' ?w1) =
      (Inr 0, after_fetch example_syncer ''honorGroups.json''
        (after_fetch example_syncer ''bondsHonors.json'' ?w1))"
    by (rule sync_honor_groups_absent) (rule example_absent)
  have c: "commit_fault example_env = None" by (simp add: example_env_def)
  from run_returns_summary [OF s1 s2 s3 c] show ?thesis by blast
qed

lemma broken_env_run:
  "\<not> (\<exists>res. fst (run broken_env example_syncer w) = Inr res \<and> res_success res)"
proof -
  let ?w1 = "snd (sync_honors broken_env example_syncer w)"
  let ?w2 = "snd (sync_bonds_honors broken_env example_syncer ?w1)"
  let ?w3 = "snd (sync_honor_groups broken_env example_syncer ?w2)"
  have "fst (sync_honors broken_env example_syncer w) = Inr 2"
    by (simp add: sync_honors_def broken_env_def eval_defs paginate_small)
  then have s1: "sync_honors broken_env example_syncer w = (Inr 2, ?w1)"
    by (simp add: prod_eq_iff)
  have "fst (sync_bonds_honors broken_env example_syncer ?w1) = Inr 0"
    by (simp add: sync_bonds_honors_def broken_env_def eval_defs)
  then have s2: "sync_bonds_honors broken_env example_syncer ?w1 = (Inr 0, ?w2)"
    by (simp add: prod_eq_iff)
  have "fst (sync_honor_groups broken_env example_syncer ?w2) =
      Inl (DatabaseError ''server closed the connection unexpectedly'')"
    by (simp add: sync_honor_groups_def broken_env_def eval_defs paginate_small)
  then have s3: "sync_honor_groups broken_env example_syncer ?w2 =
      (Inl (DatabaseError ''server closed the connection unexpectedly''), ?w3)"
    by (simp add: prod_eq_iff)
  have rb: "rollback_fault broken_env = None"
    by (simp add: broken_env_def)
  show ?thesis
    by (simp add: run_raise3 [OF s1 s2 s3] run_failed_eq rb start_results_def)
qed

lemma lost_env_run:
  "fst (run lost_env example_syncer w) = Inl (DatabaseError ''connection already closed'')"
proof -
  let ?w1 = "snd (sync_honors lost_env example_syncer w)"
  let ?w2 = "snd (sync_bonds_honors lost_env example_syncer ?w1)"
  let ?w3 = "snd (sync_honor_groups lost_env example_syncer ?w2)"
  have s1: "sync_honors lost_env example_syncer w = (Inr 2, ?w1)"
    using lost_stages(1) [of w] by (simp add: prod_eq_iff)
  have s2: "sync_bonds_honors lost_env example_syncer ?w1 = (Inr 0, ?w2)"
    using lost_stages(2) [of ?w1] by (simp add: prod_eq_iff)
  have s3: "sync_honor_groups lost_env example_syncer ?w2 =
      (Inl (DatabaseError ''server closed the connection unexpectedly''), ?w3)"
    using lost_stages(3) [of ?w2] by (simp add: prod_eq_iff)
  have rb: "rollback_fault lost_env = Some ''connection already closed''"
    by (simp add: lost_env_def)
  show ?thesis
    by (simp add: run_raise3 [OF s1 s2 s3] run_failed_eq rb)
qed

lemma example_connect:
  "connect_fault env = None \<Longrightarrow>
     HonorsSyncer env ''postgresql://sync@db/sekai'' ''jp'' example_world =
       (Inr example_syncer,
        example_world\<lparr>trace := [DbConnect ''postgresql://sync@db/sekai'']\<rparr>)"
  by (simp add: HonorsSyncer_def SERVERS_def example_syncer_def example_world_def emit_def)

text \<open>
  C8. \<open>main\<close> exits with status 0 exactly when the connection string is set and not
  empty, the constructor returned a syncer and \<open>run\<close> returned a summary with the
  success flag set; every other invocation exits with status 1: a missing or empty
  connection string, a region code outside the table, a constructor that raises, a run
  that failed, whether it returned a summary with the flag unset or left with the
  exception of its rollback.
\<close>

theorem exit_status:
  "(fst (main environ env w) = 0 \<longleftrightarrow>
      (\<exists>url self w1 res. environ ''DATABASE_URL'' = Some url \<and> url \<noteq> [] \<and>
         HonorsSyncer env url (case environ ''SERVER'' of None \<Rightarrow> ''cn'' | Some s \<Rightarrow> s) w =
           (Inr self, w1) \<and>
         fst (run env self w1) = Inr res \<and> res_success res)) \<and>
   (fst (main environ env w) = 0 \<or> fst (main environ env w) = 1) \<and>
   (environ ''DATABASE_URL'' = None \<or> environ ''DATABASE_URL'' = Some [] \<longrightarrow>
      main environ env w = (1, w)) \<and>
   ((case environ ''SERVER'' of None \<Rightarrow> ''cn'' | Some s \<Rightarrow> s) \<notin> {''cn'', ''jp'', ''en'', ''tw'', ''kr''} \<longrightarrow>
      main environ env w = (1, w)) \<and>
   (environ ''DATABASE_URL'' = Some url \<and> url \<noteq> [] \<and>
    HonorsSyncer env url (case environ ''SERVER'' of None \<Rightarrow> ''cn'' | Some s \<Rightarrow> s) w = (Inr self, w1) \<and>
    \<not> (\<exists>res. fst (run env self w1) = Inr res \<and> res_success res) \<longrightarrow>
      main environ env w = (1, close (snd (run env self w1))))"
proof -
  let ?srv = "case environ ''SERVER'' of None \<Rightarrow> ''cn'' | Some s \<Rightarrow> s"
  have valid: "SERVERS ?srv \<noteq> None" if "HonorsSyncer env url ?srv w = (Inr self, w1)" for url self w1
    using that by (auto simp: HonorsSyncer_def split: option.splits)
  have dom: "?srv \<in> dom SERVERS \<longleftrightarrow> SERVERS ?srv \<noteq> None" by (simp add: dom_def)
  have p1: "fst (main environ env w) = 0 \<longleftrightarrow>
      (\<exists>url self w1 res. environ ''DATABASE_URL'' = Some url \<and> url \<noteq> [] \<and>
         HonorsSyncer env url ?srv w = (Inr self, w1) \<and>
         fst (run env self w1) = Inr res \<and> res_success res)"
  proof (cases "environ ''DATABASE_URL''")
    case None
    then show ?thesis by (simp add: main_def)
  next
    case (Some url)
    show ?thesis
    proof (cases "url = [] \<or> SERVERS ?srv = None")
      case True
      then show ?thesis using Some valid by (auto simp: main_def Let_def dom)
    next
      case False
      obtain r w1 where h: "HonorsSyncer env url ?srv w = (r, w1)"
        by (cases "HonorsSyncer env url ?srv w")
      show ?thesis
      proof (cases r)
        case (Inl e)
        with Some False h show ?thesis by (simp add: main_def Let_def dom)
      next
        case (Inr self)
        obtain rr w2 where rn: "run env self w1 = (rr, w2)"
          by (cases "run env self w1")
        show ?thesis
        proof (cases rr)
          case (Inl e)
          with Some False h Inr rn show ?thesis by (simp add: main_def Let_def dom)
        next
          case r2: (Inr res)
          with Some False h Inr rn show ?thesis by (simp add: main_def Let_def dom)
        qed
      qed
    qed
  qed
  have p2: "fst (main environ env w) = 0 \<or> fst (main environ env w) = 1"
    by (simp add: main_def Let_def split: option.splits sum.splits prod.splits)
  have p3: "main environ env w = (1, w)"
    if "environ ''DATABASE_URL'' = None \<or> environ ''DATABASE_URL'' = Some []"
    using that by (auto simp: main_def)
  have p4: "main environ env w = (1, w)" if "?srv \<notin> {''cn'', ''jp'', ''en'', ''tw'', ''kr''}"
  proof -
    from that have "?srv \<notin> dom SERVERS" unfolding SERVERS_dom .
    then show ?thesis by (simp add: main_def Let_def split: option.splits)
  qed
  have p5: "main environ env w = (1, close (snd (run env self w1)))"
    if "environ ''DATABASE_URL'' = Some url \<and> url \<noteq> [] \<and>
      HonorsSyncer env url ?srv w = (Inr self, w1) \<and>
      \<not> (\<exists>res. fst (run env self w1) = Inr res \<and> res_success res)"
    using that valid [of url self w1]
    by (cases "run env self w1") (auto simp: main_def Let_def dom split: sum.splits)
  from p1 p2 p3 p4 p5 show ?thesis by blast
qed

theorem exit_status_witness:
  "fst (main example_environ example_env example_world) = 0 \<and>
   main (example_environ(''DATABASE_URL'' := None)) example_env example_world = (1, example_world) \<and>
   main (example_environ(''SERVER'' \<mapsto> ''de'')) example_env example_world = (1, example_world) \<and>
   fst (main example_environ broken_env example_world) = 1 \<and>
   fst (main example_environ lost_env example_world) = 1"
proof -
  let ?w1 = "example_world\<lparr>trace := [DbConnect ''postgresql://sync@db/sekai'']\<rparr>"
  have url: "example_environ ''DATABASE_URL'' = Some ''postgresql://sync@db/sekai''"
    and srv: "(case example_environ ''SERVER'' of None \<Rightarrow> ''cn'' | Some s \<Rightarrow> s) = ''jp''"
    by (simp_all add: example_environ_def)
  have c1: "HonorsSyncer example_env ''postgresql://sync@db/sekai'' ''jp'' example_world =
      (Inr example_syncer, ?w1)"
    by (rule example_connect) (simp add: example_env_def)
  have c2: "HonorsSyncer broken_env ''postgresql://sync@db/sekai'' ''jp'' example_world =
      (Inr example_syncer, ?w1)"
    by (rule example_connect) (simp add: broken_env_def)
  have c3: "HonorsSyncer lost_env ''postgresql://sync@db/sekai'' ''jp'' example_world =
      (Inr example_syncer, ?w1)"
    by (rule example_connect) (simp add: lost_env_def broken_env_def)
  have "\<exists>url self w1 res. example_environ ''DATABASE_URL'' = Some url \<and> url \<noteq> [] \<and>
      HonorsSyncer example_env url
        (case example_environ ''SERVER'' of None \<Rightarrow> ''cn'' | Some s \<Rightarrow> s) example_world =
        (Inr self, w1) \<and>
      fst (run example_env self w1) = Inr res \<and> res_success res"
    using url srv c1 example_env_run [of ?w1] by auto
  with exit_status [of example_environ example_env example_world]
  have a: "fst (main example_environ example_env example_world) = 0" by blast
  have b: "main (example_environ(''DATABASE_URL'' := None)) example_env example_world =
      (1, example_world)"
    using exit_status [of "example_environ(''DATABASE_URL'' := None)" example_env example_world]
    by simp
  have c: "main (example_environ(''SERVER'' \<mapsto> ''de'')) example_env example_world =
      (1, example_world)"
    using exit_status [of "example_environ(''SERVER'' \<mapsto> ''de'')" example_env example_world]
    by simp
  have "main example_environ broken_env example_world =
      (1, close (snd (run broken_env example_syncer ?w1)))"
    using exit_status [of example_environ broken_env example_world
        "''postgresql://sync@db/sekai''" example_syncer ?w1]
      url srv c2 broken_env_run [of ?w1]
    by simp
  then have d: "fst (main example_environ broken_env example_world) = 1" by simp
  have "main example_environ lost_env example_world =
      (1, close (snd (run lost_env example_syncer ?w1)))"
    using exit_status [of example_environ lost_env example_world
        "''postgresql://sync@db/sekai''" example_syncer ?w1]
      url srv c3 lost_env_run [of ?w1]
    by simp
  then have e: "fst (main example_environ lost_env example_world) = 1" by simp
  from a b c d e show ?thesis by blast
qed

section \<open>Region resolver\<close>

lemma SERVERS_Some:
  "srv \<in> {''cn'', ''jp'', ''en'', ''tw'', ''kr''} \<Longrightarrow>
     \<exists>rp nm. SERVERS srv = Some rp \<and> rp \<noteq> [] \<and> SERVER_NAMES srv = Some nm \<and> nm \<noteq> []"
  by (auto simp: SERVERS_def SERVER_NAMES_def)

lemma HonorsSyncer_valid:
  "SERVERS srv = Some rp \<Longrightarrow> rp \<noteq> [] \<Longrightarrow>
     HonorsSyncer env database_url srv w =
       (case connect_fault env of
          None \<Rightarrow>
            (Inr \<lparr>server = srv, repo = rp\<rparr>,
             (emit (DbConnect database_url) w)\<lparr>working := committed w\<rparr>)
        | Some m \<Rightarrow> (Inl (DatabaseError m), emit (DbConnect database_url) w))"
  by (simp add: HonorsSyncer_def Let_def emit_def split: option.split)

lemma main_valid:
  "environ ''DATABASE_URL'' = Some database_url \<Longrightarrow> database_url \<noteq> [] \<Longrightarrow>
   (case environ ''SERVER'' of None \<Rightarrow> ''cn'' | Some s \<Rightarrow> s) = srv \<Longrightarrow> SERVERS srv = Some rp \<Longrightarrow>
     main environ env w =
       (case HonorsSyncer env database_url srv w of
          (Inl e, w1) \<Rightarrow> (1, w1)
        | (Inr self, w1) \<Rightarrow>
            (case run env self w1 of
               (Inl e, w2) \<Rightarrow> (1, close w2)
             | (Inr res, w2) \<Rightarrow> if res_success res then (0, close w2) else (1, close w2)))"
  by (simp add: main_def Let_def dom_def)

text \<open>
  C7. A region code outside cn, jp, en, tw, kr makes the constructor raise before it
  connects, and makes \<open>main\<close> exit with status 1, in both cases with the world as it
  was: no request was made and no connection opened. A code inside the enumeration has a
  non-empty repository identifier and a non-empty display name in the two tables; the
  constructor does not reject it: it opens the connection and, unless the connection is
  refused, returns the syncer of that code and that repository identifier; every summary
  a run of that syncer returns carries the code and that display name; and \<open>main\<close>,
  given a connection string and that code (or no code, for cn), passes its two checks
  and goes on to the constructor and the run.
\<close>

theorem region_resolver:
  "(srv \<notin> {''cn'', ''jp'', ''en'', ''tw'', ''kr''} \<longrightarrow>
      HonorsSyncer env database_url srv w = (Inl (ValueError (''Unknown server: '' @ srv)), w) \<and>
      (environ ''SERVER'' = Some srv \<longrightarrow> main environ env w = (1, w))) \<and>
   (srv \<in> {''cn'', ''jp'', ''en'', ''tw'', ''kr''} \<longrightarrow>
      (\<exists>rp nm. SERVERS srv = Some rp \<and> rp \<noteq> [] \<and> SERVER_NAMES srv = Some nm \<and> nm \<noteq> [] \<and>
         HonorsSyncer env database_url srv w =
           (case connect_fault env of
              None \<Rightarrow>
                (Inr \<lparr>server = srv, repo = rp\<rparr>,
                 (emit (DbConnect database_url) w)\<lparr>working := committed w\<rparr>)
            | Some m \<Rightarrow> (Inl (DatabaseError m), emit (DbConnect database_url) w)) \<and>
         (\<forall>w0 res. fst (run env \<lparr>server = srv, repo = rp\<rparr> w0) = Inr res \<longrightarrow>
            res_server res = srv \<and> res_server_name res = Some nm) \<and>
         (environ ''DATABASE_URL'' = Some database_url \<and> database_url \<noteq> [] \<and>
          (environ ''SERVER'' = Some srv \<or> environ ''SERVER'' = None \<and> srv = ''cn'') \<longrightarrow>
            main environ env w =
              (case HonorsSyncer env database_url srv w of
                 (Inl e, w1) \<Rightarrow> (1, w1)
               | (Inr self, w1) \<Rightarrow>
                   (case run env self w1 of
                      (Inl e, w2) \<Rightarrow> (1, close w2)
                    | (Inr res, w2) \<Rightarrow>
                        if res_success res then (0, close w2) else (1, close w2))))))"
proof (intro conjI impI)
  assume out: "srv \<notin> {''cn'', ''jp'', ''en'', ''tw'', ''kr''}"
  then have none: "SERVERS srv = None" by (rule SERVERS_None)
  then show "HonorsSyncer env database_url srv w = (Inl (ValueError (''Unknown server: '' @ srv)), w)"
    by (simp add: HonorsSyncer_def)
  assume "environ ''SERVER'' = Some srv"
  with none show "main environ env w = (1, w)"
    by (simp add: main_def dom_def split: option.split)
next
  assume "srv \<in> {''cn'', ''jp'', ''en'', ''tw'', ''kr''}"
  then obtain rp nm where rp: "SERVERS srv = Some rp" "rp \<noteq> []"
    and nm: "SERVER_NAMES srv = Some nm" "nm \<noteq> []"
    using SERVERS_Some by blast
  have names: "res_server res = srv \<and> res_server_name res = Some nm"
    if "fst (run env \<lparr>server = srv, repo = rp\<rparr> w0) = Inr res" for w0 res
    using run_summary_names [OF that] nm by simp
  have m: "main environ env w =
      (case HonorsSyncer env database_url srv w of
         (Inl e, w1) \<Rightarrow> (1, w1)
       | (Inr self, w1) \<Rightarrow>
           (case run env self w1 of
              (Inl e, w2) \<Rightarrow> (1, close w2)
            | (Inr res, w2) \<Rightarrow> if res_success res then (0, close w2) else (1, close w2)))"
    if "environ ''DATABASE_URL'' = Some database_url \<and> database_url \<noteq> [] \<and>
      (environ ''SERVER'' = Some srv \<or> environ ''SERVER'' = None \<and> srv = ''cn'')"
  proof -
    from that have "(case environ ''SERVER'' of None \<Rightarrow> ''cn'' | Some s \<Rightarrow> s) = srv" by auto
    with that rp show ?thesis by (intro main_valid) simp_all
  qed
  from rp nm HonorsSyncer_valid [OF rp, of env database_url w] names m
  show "\<exists>rp nm. SERVERS srv = Some rp \<and> rp \<noteq> [] \<and> SERVER_NAMES srv = Some nm \<and> nm \<noteq> [] \<and>
         HonorsSyncer env database_url srv w =
           (case connect_fault env of
              None \<Rightarrow>
                (Inr \<lparr>server = srv, repo = rp\<rparr>,
                 (emit (DbConnect database_url) w)\<lparr>working := committed w\<rparr>)
            | Some m \<Rightarrow> (Inl (DatabaseError m), emit (DbConnect database_url) w)) \<and>
         (\<forall>w0 res. fst (run env \<lparr>server = srv, repo = rp\<rparr> w0) = Inr res \<longrightarrow>
            res_server res = srv \<and> res_server_name res = Some nm) \<and>
         (environ ''DATABASE_URL'' = Some database_url \<and> database_url \<noteq> [] \<and>
          (environ ''SERVER'' = Some srv \<or> environ ''SERVER'' = None \<and> srv = ''cn'') \<longrightarrow>
            main environ env w =
              (case HonorsSyncer env database_url srv w of
                 (Inl e, w1) \<Rightarrow> (1, w1)
               | (Inr self, w1) \<Rightarrow>
                   (case run env self w1 of
                      (Inl e, w2) \<Rightarrow> (1, close w2)
                    | (Inr res, w2) \<Rightarrow>
                        if res_success res then (0, close w2) else (1, close w2))))"
    by (intro exI conjI allI impI) (assumption | blast)+
qed

theorem region_resolver_witness:
  "HonorsSyncer example_env ''postgresql://sync@db/sekai'' ''xx'' example_world =
     (Inl (ValueError ''Unknown server: xx''), example_world) \<and>
   main (example_environ(''SERVER'' \<mapsto> ''xx'')) example_env example_world = (1, example_world) \<and>
   HonorsSyncer example_env ''postgresql://sync@db/sekai'' ''jp'' example_world =
     (Inr \<lparr>server = ''jp'', repo = ''haruki-sekai-master''\<rparr>,
      example_world\<lparr>trace := [DbConnect ''postgresql://sync@db/sekai'']\<rparr>) \<and>
   (\<exists>res. fst (run example_env example_syncer example_world) = Inr res \<and>
      res_server res = ''jp'' \<and>
      res_server_name res =
        Some [CHR 0xE6, CHR 0x97, CHR 0xA5, CHR 0xE6, CHR 0x9C, CHR 0xAC,
              CHR 0xE8, CHR 0xAA, CHR 0x9E]) \<and>
   fst (main example_environ example_env example_world) = 0"
proof -
  let ?url = "''postgresql://sync@db/sekai''"
  let ?w1 = "example_world\<lparr>trace := [DbConnect ?url]\<rparr>"
  have out: "HonorsSyncer example_env ?url ''xx'' example_world =
      (Inl (ValueError ''Unknown server: xx''), example_world) \<and>
    main (example_environ(''SERVER'' \<mapsto> ''xx'')) example_env example_world = (1, example_world)"
    using region_resolver [of "''xx''" example_env ?url example_world
        "example_environ(''SERVER'' \<mapsto> ''xx'')"]
    by simp
  have "''jp'' \<in> {''cn'', ''jp'', ''en'', ''tw'', ''kr''}" by simp
  with region_resolver [of "''jp''" example_env ?url example_world example_environ]
  obtain rp nm where rp: "SERVERS ''jp'' = Some rp" and nm: "SERVER_NAMES ''jp'' = Some nm"
    and h: "HonorsSyncer example_env ?url ''jp'' example_world =
      (case connect_fault example_env of
         None \<Rightarrow>
           (Inr \<lparr>server = ''jp'', repo = rp\<rparr>,
            (emit (DbConnect ?url) example_world)\<lparr>working := committed example_world\<rparr>)
       | Some m \<Rightarrow> (Inl (DatabaseError m), emit (DbConnect ?url) example_world))"
    and names: "\<forall>w0 res. fst (run example_env \<lparr>server = ''jp'', repo = rp\<rparr> w0) = Inr res \<longrightarrow>
      res_server res = ''jp'' \<and> res_server_name res = Some nm"
    and m: "example_environ ''DATABASE_URL'' = Some ?url \<and> ?url \<noteq> [] \<and>
        (example_environ ''SERVER'' = Some ''jp'' \<or>
         example_environ ''SERVER'' = None \<and> ''jp'' = ''cn'') \<longrightarrow>
      main example_environ example_env example_world =
        (case HonorsSyncer example_env ?url ''jp'' example_world of
           (Inl e, w1) \<Rightarrow> (1, w1)
         | (Inr self, w1) \<Rightarrow>
             (case run example_env self w1 of
                (Inl e, w2) \<Rightarrow> (1, close w2)
              | (Inr res, w2) \<Rightarrow> if res_success res then (0, close w2) else (1, close w2)))"
    by blast
  from rp have rp': "rp = ''haruki-sekai-master''" by (simp add: SERVERS_def)
  from nm have nm': "nm = [CHR 0xE6, CHR 0x97, CHR 0xA5, CHR 0xE6, CHR 0x9C, CHR 0xAC,
      CHR 0xE8, CHR 0xAA, CHR 0x9E]"
    by (simp add: SERVER_NAMES_def)
  have cf: "connect_fault example_env = None" by (simp add: example_env_def)
  have hs: "HonorsSyncer example_env ?url ''jp'' example_world =
      (Inr \<lparr>server = ''jp'', repo = ''haruki-sekai-master''\<rparr>, ?w1)"
    using h by (simp add: cf rp' emit_def example_world_def)
  have sy: "\<lparr>server = ''jp'', repo = rp\<rparr> = example_syncer"
    by (simp add: rp' example_syncer_def)
  obtain res0 where res0: "fst (run example_env example_syncer example_world) = Inr res0"
    using example_env_run [of example_world] by blast
  with names sy have "res_server res0 = ''jp'' \<and> res_server_name res0 = Some nm"
    by metis
  with res0 nm' have summary: "\<exists>res. fst (run example_env example_syncer example_world) = Inr res \<and>
      res_server res = ''jp'' \<and>
      res_server_name res =
        Some [CHR 0xE6, CHR 0x97, CHR 0xA5, CHR 0xE6, CHR 0x9C, CHR 0xAC,
              CHR 0xE8, CHR 0xAA, CHR 0x9E]"
    by blast
  obtain res1 where res1: "fst (run example_env example_syncer ?w1) = Inr res1" "res_success res1"
    using example_env_run [of ?w1] by blast
  have "example_environ ''DATABASE_URL'' = Some ?url" "example_environ ''SERVER'' = Some ''jp''"
    by (simp_all add: example_environ_def)
  with m have "main example_environ example_env example_world =
      (case HonorsSyncer example_env ?url ''jp'' example_world of
         (Inl e, w1) \<Rightarrow> (1, w1)
       | (Inr self, w1) \<Rightarrow>
           (case run example_env self w1 of
              (Inl e, w2) \<Rightarrow> (1, close w2)
            | (Inr res, w2) \<Rightarrow> if res_success res then (0, close w2) else (1, close w2)))"
    by simp
  then have "fst (main example_environ example_env example_world) = 0"
    using res1 by (cases "run example_env example_syncer ?w1")
      (simp add: hs example_syncer_def [symmetric])
  with out hs summary show ?thesis by blast
qed

section \<open>The record mappers on objects\<close>

text \<open>
  C3, as the code has it. On every JSON object each of the three mappers returns a row
  and raises nothing; the row carries the region, every plain column holds the value of
  its key in the object, null when the key is missing, and the \<^verbatim>\<open>levels\<close> column of
  honors and bonds honors holds the wrapped value of \<^verbatim>\<open>levels\<close>, the empty array (not
  null) when that key is missing.
\<close>

theorem record_mappers_total:
  "(\<exists>r. honors_tuple srv (JObj kvs) = Inr r \<and> h_server r = srv \<and>
      (\<forall>(k, col) \<in> set honors_columns. col r = value_or_null kvs k) \<and>
      h_levels r = Json (case map_of kvs ''levels'' of None \<Rightarrow> JArr [] | Some v \<Rightarrow> v)) \<and>
   (\<exists>r. bonds_honors_tuple srv (JObj kvs) = Inr r \<and> b_server r = srv \<and>
      (\<forall>(k, col) \<in> set bonds_honors_columns. col r = value_or_null kvs k) \<and>
      b_levels r = Json (case map_of kvs ''levels'' of None \<Rightarrow> JArr [] | Some v \<Rightarrow> v)) \<and>
   (\<exists>r. honor_groups_tuple srv (JObj kvs) = Inr r \<and> g_server r = srv \<and>
      (\<forall>(k, col) \<in> set honor_groups_columns. col r = value_or_null kvs k))"
  by (simp add: honors_tuple_def bonds_honors_tuple_def honor_groups_tuple_def
      honors_columns_def bonds_honors_columns_def honor_groups_columns_def
      value_or_null_def dict_get_def)

theorem record_mappers_total_witness:
  "(\<exists>r. honors_tuple ''jp'' (JObj [(''id'', JInt 1), (''name'', JStr ''A'')]) = Inr r \<and>
      h_server r = ''jp'' \<and> h_honor_id r = JInt 1 \<and> h_seq r = JNull \<and>
      h_group_id r = JNull \<and> h_honor_rarity r = JNull \<and> h_name r = JStr ''A'' \<and>
      h_asset_bundle_name r = JNull \<and> h_levels r = Json (JArr [])) \<and>
   (\<exists>r. honor_groups_tuple ''jp'' (JObj [(''id'', JInt 1), (''name'', JStr ''A'')]) = Inr r \<and>
      g_group_id r = JInt 1 \<and> g_name r = JStr ''A'' \<and> g_honor_type r = JNull \<and>
      g_background_asset_bundle_name r = JNull)"
proof -
  note t = record_mappers_total [of "''jp''" "[(''id'', JInt 1), (''name'', JStr ''A'')]"]
  from t have "\<exists>r. honors_tuple ''jp'' (JObj [(''id'', JInt 1), (''name'', JStr ''A'')]) = Inr r \<and>
      h_server r = ''jp'' \<and> h_honor_id r = JInt 1 \<and> h_seq r = JNull \<and>
      h_group_id r = JNull \<and> h_honor_rarity r = JNull \<and> h_name r = JStr ''A'' \<and>
      h_asset_bundle_name r = JNull \<and> h_levels r = Json (JArr [])"
    by (simp add: honors_columns_def value_or_null_def)
  moreover from t have "\<exists>r. honor_groups_tuple ''jp'' (JObj [(''id'', JInt 1), (''name'', JStr ''A'')]) = Inr r \<and>
      g_group_id r = JInt 1 \<and> g_name r = JStr ''A'' \<and> g_honor_type r = JNull \<and>
      g_background_asset_bundle_name r = JNull"
    by (simp add: honor_groups_columns_def value_or_null_def) blast
  ultimately show ?thesis by (rule conjI)
qed

text \<open>
  The claim as the specification words it fails on \<^verbatim>\<open>levels\<close>: an object without that
  key gets the empty array in its row, through the default of \<^verbatim>\<open>item.get('levels', [])\<close>.
\<close>

theorem missing_levels_counterexample:
  "honors_tuple ''jp'' (JObj [(''id'', JInt 1), (''name'', JStr ''A'')]) =
     Inr \<lparr>h_server = ''jp'', h_honor_id = JInt 1, h_seq = JNull, h_group_id = JNull,
          h_honor_rarity = JNull, h_name = JStr ''A'', h_asset_bundle_name = JNull,
          h_levels = Json (JArr [])\<rparr> \<and>
   map_of [(''id'', JInt 1), (''name'', JStr ''A'')] ''levels'' = None \<and>
   Json (JArr []) \<noteq> Json JNull"
  by (simp add: honors_tuple_def dict_get_def)

section \<open>Upserting twice\<close>

lemma find_key_None: "find (\<lambda>r. key r = k) (rev rs) = None \<longleftrightarrow> k \<notin> key ` set rs"
  by (auto simp: find_None_iff)

lemma find_in_set: "find P xs = Some x \<Longrightarrow> x \<in> set xs \<and> P x"
  by (induction xs) (auto split: if_splits)

lemma find_key_Some: "find (\<lambda>r. key r = k) (rev rs) = Some r \<Longrightarrow> k \<in> key ` set rs"
  using find_in_set [of "\<lambda>r. key r = k" "rev rs" r] by auto

lemma execute_values_twice:
  assumes lens: "\<And>t d. get (put t d) = t" and upd: "\<And>ts r old. upd ts r old = ins ts r"
    and stamp: "\<And>r. restamp (ins t1 r) = ins t2 r"
    and first: "execute_values env1 tbl get put (insert_on_conflict key (ins t1) (upd t1) [])
        records w = (Inr (), w1)"
    and nofault: "execute_fault env2 tbl = None"
  shows "\<exists>w2. execute_values env2 tbl get put (insert_on_conflict key (ins t2) (upd t2) [])
        records w1 = (Inr (), w2) \<and>
     (\<forall>k. (k \<in> key ` set records \<longrightarrow>
            (\<exists>row. get (working w1) k = Some row \<and> get (working w2) k = Some (restamp row))) \<and>
          (k \<notin> key ` set records \<longrightarrow> get (working w2) k = get (working w1) k))"
proof -
  let ?pages = "paginate 100 records"
  have cc: "concat ?pages = records" by (simp add: paginate_concat)
  from first have f: "execute_pages env1 tbl get put (insert_on_conflict key (ins t1) (upd t1) [])
      ?pages w = (Inr (), w1)"
    by (simp add: execute_values_def)
  from execute_pages_success [OF lens upd f]
  have t1: "get (working w1) = put_rows key (ins t1) (get (working w)) records"
    and ok: "\<forall>p \<in> set ?pages. stmt_ok key p"
    by (simp_all add: cc)
  from nofault have "?pages = [] \<or> execute_fault env2 tbl = None" by simp
  from execute_pages_succeeds [where upd = "upd t2" and ins = "ins t2" and env = env2
      and tbl = tbl and key = key and pages = ?pages and get = get and put = put and w = w1,
      OF upd this ok]
  obtain w2 where s: "execute_pages env2 tbl get put (insert_on_conflict key (ins t2) (upd t2) [])
      ?pages w1 = (Inr (), w2)"
    by blast
  from execute_pages_success [OF lens upd s]
  have t2: "get (working w2) = put_rows key (ins t2) (get (working w1)) records"
    by (simp add: cc)
  have "(k \<in> key ` set records \<longrightarrow>
            (\<exists>row. get (working w1) k = Some row \<and> get (working w2) k = Some (restamp row))) \<and>
          (k \<notin> key ` set records \<longrightarrow> get (working w2) k = get (working w1) k)" for k
  proof (cases "find (\<lambda>r. key r = k) (rev records)")
    case None
    then have "k \<notin> key ` set records" by (simp add: find_key_None)
    moreover from None have "get (working w2) k = get (working w1) k"
      by (simp add: t2 put_rows_apply)
    ultimately show ?thesis by simp
  next
    case (Some r)
    then have "k \<in> key ` set records" by (rule find_key_Some)
    moreover from Some have "get (working w1) k = Some (ins t1 r)"
      by (simp add: t1 put_rows_apply)
    moreover from Some have "get (working w2) k = Some (ins t2 r)"
      by (simp add: t2 put_rows_apply)
    ultimately show ?thesis by (simp add: stamp)
  qed
  with s show ?thesis by (simp add: execute_values_def)
qed

lemma upserted_first:
  "execute_values example_env ''honors'' honors (\<lambda>t d. d\<lparr>honors := t\<rparr>)
     (honors_sql (current_timestamp example_env)) example_records example_world =
   (Inr (), upserted_world)"
proof -
  have "fst (execute_values example_env ''honors'' honors (\<lambda>t d. d\<lparr>honors := t\<rparr>)
     (honors_sql (current_timestamp example_env)) example_records example_world) = Inr ()"
    by (simp add: example_env_def example_records_def eval_defs paginate_small)
  then show ?thesis by (simp add: upserted_world_def prod_eq_iff)
qed

lemma upserted_row:
  "honors (working upserted_world) (''jp'', JInt 1) =
     Some \<lparr>honors_seq = JInt 1, honors_group_id = JInt 10, honors_honor_rarity = JStr ''low'',
           honors_name = JStr ''A'', honors_asset_bundle_name = JStr ''a'',
           honors_levels = Json (JArr []), honors_updated_at = 7\<rparr>"
  by (simp add: upserted_world_def example_env_def example_records_def eval_defs paginate_small)

text \<open>
  C6. When the upsert of a list of records has succeeded, the upsert of the same list
  on the resulting store succeeds too, unless the server refuses the statement for a
  reason of its own; afterwards every row whose identity is in the list is the row the
  first upsert left with \<^verbatim>\<open>updated_at\<close> set to the timestamp of the second, and every
  other row is untouched. This holds for each of the three tables.
\<close>

theorem upsert_idempotent:
  "(execute_values env1 ''honors'' honors (\<lambda>t d. d\<lparr>honors := t\<rparr>)
      (honors_sql (current_timestamp env1)) hs w = (Inr (), w1) \<and>
    execute_fault env2 ''honors'' = None \<longrightarrow>
    (\<exists>w2. execute_values env2 ''honors'' honors (\<lambda>t d. d\<lparr>honors := t\<rparr>)
        (honors_sql (current_timestamp env2)) hs w1 = (Inr (), w2) \<and>
      (\<forall>k. (k \<in> honors_key ` set hs \<longrightarrow>
             (\<exists>row. honors (working w1) k = Some row \<and>
                honors (working w2) k =
                  Some (row\<lparr>honors_updated_at := current_timestamp env2\<rparr>))) \<and>
           (k \<notin> honors_key ` set hs \<longrightarrow> honors (working w2) k = honors (working w1) k)))) \<and>
   (execute_values env1 ''bonds_honors'' bonds_honors (\<lambda>t d. d\<lparr>bonds_honors := t\<rparr>)
      (bonds_honors_sql (current_timestamp env1)) bs w = (Inr (), w1) \<and>
    execute_fault env2 ''bonds_honors'' = None \<longrightarrow>
    (\<exists>w2. execute_values env2 ''bonds_honors'' bonds_honors (\<lambda>t d. d\<lparr>bonds_honors := t\<rparr>)
        (bonds_honors_sql (current_timestamp env2)) bs w1 = (Inr (), w2) \<and>
      (\<forall>k. (k \<in> bonds_honors_key ` set bs \<longrightarrow>
             (\<exists>row. bonds_honors (working w1) k = Some row \<and>
                bonds_honors (working w2) k =
                  Some (row\<lparr>bonds_updated_at := current_timestamp env2\<rparr>))) \<and>
           (k \<notin> bonds_honors_key ` set bs \<longrightarrow>
              bonds_honors (working w2) k = bonds_honors (working w1) k)))) \<and>
   (execute_values env1 ''honor_groups'' honor_groups (\<lambda>t d. d\<lparr>honor_groups := t\<rparr>)
      (honor_groups_sql (current_timestamp env1)) gs w = (Inr (), w1) \<and>
    execute_fault env2 ''honor_groups'' = None \<longrightarrow>
    (\<exists>w2. execute_values env2 ''honor_groups'' honor_groups (\<lambda>t d. d\<lparr>honor_groups := t\<rparr>)
        (honor_groups_sql (current_timestamp env2)) gs w1 = (Inr (), w2) \<and>
      (\<forall>k. (k \<in> honor_groups_key ` set gs \<longrightarrow>
             (\<exists>row. honor_groups (working w1) k = Some row \<and>
                honor_groups (working w2) k =
                  Some (row\<lparr>groups_updated_at := current_timestamp env2\<rparr>))) \<and>
           (k \<notin> honor_groups_key ` set gs \<longrightarrow>
              honor_groups (working w2) k = honor_groups (working w1) k))))"
proof (intro conjI impI)
  assume a: "execute_values env1 ''honors'' honors (\<lambda>t d. d\<lparr>honors := t\<rparr>)
      (honors_sql (current_timestamp env1)) hs w = (Inr (), w1) \<and>
    execute_fault env2 ''honors'' = None"
  then have first: "execute_values env1 ''honors'' honors (\<lambda>t d. d\<lparr>honors := t\<rparr>)
      (insert_on_conflict honors_key (honors_insert (current_timestamp env1))
         (honors_do_update (current_timestamp env1)) []) hs w = (Inr (), w1)"
    by (simp add: honors_sql_def)
  from a have nofault: "execute_fault env2 ''honors'' = None" by simp
  have "\<exists>w2. execute_values env2 ''honors'' honors (\<lambda>t d. d\<lparr>honors := t\<rparr>)
        (insert_on_conflict honors_key (honors_insert (current_timestamp env2))
           (honors_do_update (current_timestamp env2)) []) hs w1 = (Inr (), w2) \<and>
      (\<forall>k. (k \<in> honors_key ` set hs \<longrightarrow>
             (\<exists>row. honors (working w1) k = Some row \<and>
                honors (working w2) k =
                  Some (row\<lparr>honors_updated_at := current_timestamp env2\<rparr>))) \<and>
           (k \<notin> honors_key ` set hs \<longrightarrow> honors (working w2) k = honors (working w1) k))"
    by (rule execute_values_twice [where upd = honors_do_update and ins = honors_insert
          and restamp = "\<lambda>row. row\<lparr>honors_updated_at := current_timestamp env2\<rparr>",
          OF _ _ _ first nofault])
       (simp_all add: honors_replace honors_insert_def)
  then show "\<exists>w2. execute_values env2 ''honors'' honors (\<lambda>t d. d\<lparr>honors := t\<rparr>)
        (honors_sql (current_timestamp env2)) hs w1 = (Inr (), w2) \<and>
      (\<forall>k. (k \<in> honors_key ` set hs \<longrightarrow>
             (\<exists>row. honors (working w1) k = Some row \<and>
                honors (working w2) k =
                  Some (row\<lparr>honors_updated_at := current_timestamp env2\<rparr>))) \<and>
           (k \<notin> honors_key ` set hs \<longrightarrow> honors (working w2) k = honors (working w1) k))"
    by (simp add: honors_sql_def)
next
  assume a: "execute_values env1 ''bonds_honors'' bonds_honors (\<lambda>t d. d\<lparr>bonds_honors := t\<rparr>)
      (bonds_honors_sql (current_timestamp env1)) bs w = (Inr (), w1) \<and>
    execute_fault env2 ''bonds_honors'' = None"
  then have first: "execute_values env1 ''bonds_honors'' bonds_honors (\<lambda>t d. d\<lparr>bonds_honors := t\<rparr>)
      (insert_on_conflict bonds_honors_key (bonds_honors_insert (current_timestamp env1))
         (bonds_honors_do_update (current_timestamp env1)) []) bs w = (Inr (), w1)"
    by (simp add: bonds_honors_sql_def)
  from a have nofault: "execute_fault env2 ''bonds_honors'' = None" by simp
  have "\<exists>w2. execute_values env2 ''bonds_honors'' bonds_honors (\<lambda>t d. d\<lparr>bonds_honors := t\<rparr>)
        (insert_on_conflict bonds_honors_key (bonds_honors_insert (current_timestamp env2))
           (bonds_honors_do_update (current_timestamp env2)) []) bs w1 = (Inr (), w2) \<and>
      (\<forall>k. (k \<in> bonds_honors_key ` set bs \<longrightarrow>
             (\<exists>row. bonds_honors (working w1) k = Some row \<and>
                bonds_honors (working w2) k =
                  Some (row\<lparr>bonds_updated_at := current_timestamp env2\<rparr>))) \<and>
           (k \<notin> bonds_honors_key ` set bs \<longrightarrow> bonds_honors (working w2) k = bonds_honors (working w1) k))"
    by (rule execute_values_twice [where upd = bonds_honors_do_update and ins = bonds_honors_insert
          and restamp = "\<lambda>row. row\<lparr>bonds_updated_at := current_timestamp env2\<rparr>",
          OF _ _ _ first nofault])
       (simp_all add: bonds_honors_replace bonds_honors_insert_def)
  then show "\<exists>w2. execute_values env2 ''bonds_honors'' bonds_honors (\<lambda>t d. d\<lparr>bonds_honors := t\<rparr>)
        (bonds_honors_sql (current_timestamp env2)) bs w1 = (Inr (), w2) \<and>
      (\<forall>k. (k \<in> bonds_honors_key ` set bs \<longrightarrow>
             (\<exists>row. bonds_honors (working w1) k = Some row \<and>
                bonds_honors (working w2) k =
                  Some (row\<lparr>bonds_updated_at := current_timestamp env2\<rparr>))) \<and>
           (k \<notin> bonds_honors_key ` set bs \<longrightarrow> bonds_honors (working w2) k = bonds_honors (working w1) k))"
    by (simp add: bonds_honors_sql_def)
next
  assume a: "execute_values env1 ''honor_groups'' honor_groups (\<lambda>t d. d\<lparr>honor_groups := t\<rparr>)
      (honor_groups_sql (current_timestamp env1)) gs w = (Inr (), w1) \<and>
    execute_fault env2 ''honor_groups'' = None"
  then have first: "execute_values env1 ''honor_groups'' honor_groups (\<lambda>t d. d\<lparr>honor_groups := t\<rparr>)
      (insert_on_conflict honor_groups_key (honor_groups_insert (current_timestamp env1))
         (honor_groups_do_update (current_timestamp env1)) []) gs w = (Inr (), w1)"
    by (simp add: honor_groups_sql_def)
  from a have nofault: "execute_fault env2 ''honor_groups'' = None" by simp
  have "\<exists>w2. execute_values env2 ''honor_groups'' honor_groups (\<lambda>t d. d\<lparr>honor_groups := t\<rparr>)
        (insert_on_conflict honor_groups_key (honor_groups_insert (current_timestamp env2))
           (honor_groups_do_update (current_timestamp env2)) []) gs w1 = (Inr (), w2) \<and>
      (\<forall>k. (k \<in> honor_groups_key ` set gs \<longrightarrow>
             (\<exists>row. honor_groups (working w1) k = Some row \<and>
                honor_groups (working w2) k =
                  Some (row\<lparr>groups_updated_at := current_timestamp env2\<rparr>))) \<and>
           (k \<notin> honor_groups_key ` set gs \<longrightarrow> honor_groups (working w2) k = honor_groups (working w1) k))"
    by (rule execute_values_twice [where upd = honor_groups_do_update and ins = honor_groups_insert
          and restamp = "\<lambda>row. row\<lparr>groups_updated_at := current_timestamp env2\<rparr>",
          OF _ _ _ first nofault])
       (simp_all add: honor_groups_replace honor_groups_insert_def)
  then show "\<exists>w2. execute_values env2 ''honor_groups'' honor_groups (\<lambda>t d. d\<lparr>honor_groups := t\<rparr>)
        (honor_groups_sql (current_timestamp env2)) gs w1 = (Inr (), w2) \<and>
      (\<forall>k. (k \<in> honor_groups_key ` set gs \<longrightarrow>
             (\<exists>row. honor_groups (working w1) k = Some row \<and>
                honor_groups (working w2) k =
                  Some (row\<lparr>groups_updated_at := current_timestamp env2\<rparr>))) \<and>
           (k \<notin> honor_groups_key ` set gs \<longrightarrow> honor_groups (working w2) k = honor_groups (working w1) k))"
    by (simp add: honor_groups_sql_def)
qed

theorem upsert_idempotent_witness:
  "\<exists>w2. execute_values fallback_env ''honors'' honors (\<lambda>t d. d\<lparr>honors := t\<rparr>)
       (honors_sql (current_timestamp fallback_env)) example_records upserted_world = (Inr (), w2) \<and>
     honors (working w2) (''jp'', JInt 1) =
       Some \<lparr>honors_seq = JInt 1, honors_group_id = JInt 10, honors_honor_rarity = JStr ''low'',
             honors_name = JStr ''A'', honors_asset_bundle_name = JStr ''a'',
             honors_levels = Json (JArr []), honors_updated_at = 9\<rparr> \<and>
     honors (working w2) (''jp'', JInt 3) = honors (working upserted_world) (''jp'', JInt 3)"
proof -
  have nofault: "execute_fault fallback_env ''honors'' = None"
    by (simp add: fallback_env_def)
  from upsert_idempotent [of example_env example_records example_world upserted_world fallback_env]
    upserted_first nofault
  obtain w2 where
    s: "execute_values fallback_env ''honors'' honors (\<lambda>t d. d\<lparr>honors := t\<rparr>)
       (honors_sql (current_timestamp fallback_env)) example_records upserted_world = (Inr (), w2)"
    and k: "\<forall>k. (k \<in> honors_key ` set example_records \<longrightarrow>
         (\<exists>row. honors (working upserted_world) k = Some row \<and>
            honors (working w2) k =
              Some (row\<lparr>honors_updated_at := current_timestamp fallback_env\<rparr>))) \<and>
       (k \<notin> honors_key ` set example_records \<longrightarrow>
          honors (working w2) k = honors (working upserted_world) k)"
    by blast
  have in1: "(''jp'', JInt 1) \<in> honors_key ` set example_records"
    and out3: "(''jp'', JInt 3) \<notin> honors_key ` set example_records"
    by (simp_all add: example_records_def honors_key_def)
  from k in1 obtain row where "honors (working upserted_world) (''jp'', JInt 1) = Some row"
    and "honors (working w2) (''jp'', JInt 1) =
      Some (row\<lparr>honors_updated_at := current_timestamp fallback_env\<rparr>)"
    by blast
  then have "honors (working w2) (''jp'', JInt 1) =
      Some \<lparr>honors_seq = JInt 1, honors_group_id = JInt 10, honors_honor_rarity = JStr ''low'',
            honors_name = JStr ''A'', honors_asset_bundle_name = JStr ''a'',
            honors_levels = Json (JArr []), honors_updated_at = 9\<rparr>"
    by (auto simp: upserted_row fallback_env_def)
  moreover from k out3 have "honors (working w2) (''jp'', JInt 3) =
      honors (working upserted_world) (''jp'', JInt 3)"
    by blast
  ultimately show ?thesis using s by blast
qed

section \<open>Re-syncing an identity\<close>

lemma map_items_Cons:
  "map_items f (x # xs) = Inr rs \<longleftrightarrow>
     (\<exists>r rs'. rs = r # rs' \<and> f x = Inr r \<and> map_items f xs = Inr rs')"
  by (cases "f x"; cases "map_items f xs") auto

lemma map_items_iff:
  "map_items f xs = Inr rs \<longleftrightarrow> list_all2 (\<lambda>x r. f x = Inr r) xs rs"
proof (induction xs arbitrary: rs)
  case Nil
  show ?case by (cases rs) simp_all
next
  case (Cons x xs)
  have "map_items f (x # xs) = Inr rs \<longleftrightarrow>
      (\<exists>r rs'. rs = r # rs' \<and> f x = Inr r \<and> map_items f xs = Inr rs')"
    by (rule map_items_Cons)
  also have "\<dots> \<longleftrightarrow> (\<exists>r rs'. rs = r # rs' \<and> f x = Inr r \<and>
      list_all2 (\<lambda>x r. f x = Inr r) xs rs')"
    unfolding Cons.IH ..
  also have "\<dots> \<longleftrightarrow> list_all2 (\<lambda>x r. f x = Inr r) (x # xs) rs"
    unfolding list_all2_Cons1 by blast
  finally show ?case .
qed

lemma list_all2_source:
  "list_all2 P xs ys \<Longrightarrow> y \<in> set ys \<Longrightarrow> \<exists>x \<in> set xs. P x y"
  by (induction xs ys rule: list_all2_induct) auto

lemma put_rows_last:
  assumes "\<forall>x \<in> set rpost. key x \<noteq> key r"
  shows "put_rows key mk t (rpre @ r # rpost) (key r) = Some (mk r)"
proof -
  have "find (\<lambda>x. key x = key r) (rev rpost) = None"
    using assms by (simp add: find_None_iff)
  then show ?thesis by (simp add: put_rows_apply find_app)
qed

lemma sync_stage_last_wins:
  assumes lens: "\<And>t d. get (put t d) = t" and upd: "\<And>ts r old. upd ts r old = ins ts r"
    and keys: "\<And>srv kvs r. tuple srv (JObj kvs) = Inr r \<Longrightarrow> key r = (srv, dict_get kvs ''id'' JNull)"
    and objs: "\<And>srv item r. tuple srv item = Inr r \<Longrightarrow> \<exists>kvs. item = JObj kvs"
    and fetch: "fetch_json env self file w = (Inr (Some (JArr (pre @ JObj kvs # post))), w1)"
    and ret: "sync_stage file tbl get put (\<lambda>ts. insert_on_conflict key (ins ts) (upd ts) []) tuple
        env self w = (Inr n, w')"
    and last: "\<forall>kvs'. JObj kvs' \<in> set post \<longrightarrow> dict_get kvs' ''id'' JNull \<noteq> dict_get kvs ''id'' JNull"
  shows "\<exists>r. tuple (server self) (JObj kvs) = Inr r \<and>
     get (working w') (server self, dict_get kvs ''id'' JNull) = Some (ins (current_timestamp env) r)"
proof -
  from sync_stage_returns [OF lens upd ret] fetch
  obtain records where
    rc: "map_items (tuple (server self)) (pre @ JObj kvs # post) = Inr records" and
    tb: "get (working w') = put_rows key (ins (current_timestamp env)) (get (working w1)) records"
    by auto
  from rc have "list_all2 (\<lambda>x r. tuple (server self) x = Inr r) (pre @ JObj kvs # post) records"
    by (simp add: map_items_iff)
  then obtain rpre r rpost where
    split: "records = rpre @ r # rpost" and
    r: "tuple (server self) (JObj kvs) = Inr r" and
    post: "list_all2 (\<lambda>x r. tuple (server self) x = Inr r) post rpost"
    by (auto simp: list_all2_append1 list_all2_Cons1)
  have kr: "key r = (server self, dict_get kvs ''id'' JNull)" by (rule keys [OF r])
  have "\<forall>x \<in> set rpost. key x \<noteq> key r"
  proof
    fix x assume "x \<in> set rpost"
    with post obtain item where item: "item \<in> set post" "tuple (server self) item = Inr x"
      using list_all2_source [of "\<lambda>x r. tuple (server self) x = Inr r" post rpost x] by blast
    from objs [OF item(2)] obtain kvs' where k': "item = JObj kvs'" ..
    from item(2) have "tuple (server self) (JObj kvs') = Inr x" unfolding k' .
    then have kx: "key x = (server self, dict_get kvs' ''id'' JNull)" by (rule keys)
    from last item(1) have "dict_get kvs' ''id'' JNull \<noteq> dict_get kvs ''id'' JNull"
      unfolding k' by blast
    then show "key x \<noteq> key r" unfolding kx kr by simp
  qed
  then have "put_rows key (ins (current_timestamp env)) (get (working w1)) (rpre @ r # rpost) (key r) =
      Some (ins (current_timestamp env) r)"
    by (rule put_rows_last)
  then have "get (working w') (server self, dict_get kvs ''id'' JNull) =
      Some (ins (current_timestamp env) r)"
    unfolding tb split kr .
  with r show ?thesis by blast
qed

lemma sparse_fetch:
  "fetch_json sparse_env example_syncer ''honors.json'' stored_world =
     (Inr (Some (JArr ([] @ JObj [(''id'', JInt 1), (''name'', JStr ''A2'')] # []))),
      stored_world\<lparr>trace :=
        [HttpGet ''https://raw.githubusercontent.com/Team-Haruki/haruki-sekai-master/main/master/honors.json'']\<rparr>)"
  by (simp add: sparse_env_def stored_world_def eval_defs)

lemma sparse_stage:
  "sync_honors sparse_env example_syncer stored_world = (Inr 1, resynced_world)"
proof -
  have "fst (sync_honors sparse_env example_syncer stored_world) = Inr 1"
    by (simp add: sync_honors_def sparse_env_def stored_world_def stored_db_def eval_defs
        paginate_small)
  then show ?thesis by (simp add: resynced_world_def prod_eq_iff)
qed

text \<open>
  C2, as the code has it. When a stage has synced a snapshot array, the row stored under
  the identity of an object of the array (the last object with that identity, when there
  are several) holds in every column other than the key the value of that object's
  field, whatever the table held under that identity before: null for a field the
  object does not have, except \<^verbatim>\<open>levels\<close>, which is then the empty array; its
  \<^verbatim>\<open>updated_at\<close> is the timestamp of the sync.
\<close>

theorem resync_overwrites:
  "(fetch_json env self ''honors.json'' w = (Inr (Some (JArr (pre @ JObj kvs # post))), w1) \<and>
    sync_honors env self w = (Inr n, w') \<and>
    (\<forall>kvs'. JObj kvs' \<in> set post \<longrightarrow>
       value_or_null kvs' ''id'' \<noteq> value_or_null kvs ''id'') \<longrightarrow>
    honors (working w') (server self, value_or_null kvs ''id'') =
      Some \<lparr>honors_seq = value_or_null kvs ''seq'',
            honors_group_id = value_or_null kvs ''groupId'',
            honors_honor_rarity = value_or_null kvs ''honorRarity'',
            honors_name = value_or_null kvs ''name'',
            honors_asset_bundle_name = value_or_null kvs ''assetbundleName'',
            honors_levels = Json (case map_of kvs ''levels'' of None \<Rightarrow> JArr [] | Some v \<Rightarrow> v),
            honors_updated_at = current_timestamp env\<rparr>) \<and>
   (fetch_json env self ''bondsHonors.json'' w = (Inr (Some (JArr (pre @ JObj kvs # post))), w1) \<and>
    sync_bonds_honors env self w = (Inr n, w') \<and>
    (\<forall>kvs'. JObj kvs' \<in> set post \<longrightarrow>
       value_or_null kvs' ''id'' \<noteq> value_or_null kvs ''id'') \<longrightarrow>
    bonds_honors (working w') (server self, value_or_null kvs ''id'') =
      Some \<lparr>bonds_seq = value_or_null kvs ''seq'',
            bonds_bonds_group_id = value_or_null kvs ''bondsGroupId'',
            bonds_game_character_unit_id1 = value_or_null kvs ''gameCharacterUnitId1'',
            bonds_game_character_unit_id2 = value_or_null kvs ''gameCharacterUnitId2'',
            bonds_honor_rarity = value_or_null kvs ''honorRarity'',
            bonds_name = value_or_null kvs ''name'',
            bonds_description = value_or_null kvs ''description'',
            bonds_levels = Json (case map_of kvs ''levels'' of None \<Rightarrow> JArr [] | Some v \<Rightarrow> v),
            bonds_updated_at = current_timestamp env\<rparr>) \<and>
   (fetch_json env self ''honorGroups.json'' w = (Inr (Some (JArr (pre @ JObj kvs # post))), w1) \<and>
    sync_honor_groups env self w = (Inr n, w') \<and>
    (\<forall>kvs'. JObj kvs' \<in> set post \<longrightarrow>
       value_or_null kvs' ''id'' \<noteq> value_or_null kvs ''id'') \<longrightarrow>
    honor_groups (working w') (server self, value_or_null kvs ''id'') =
      Some \<lparr>groups_name = value_or_null kvs ''name'',
            groups_honor_type = value_or_null kvs ''honorType'',
            groups_background_asset_bundle_name = value_or_null kvs ''backgroundAssetbundleName'',
            groups_updated_at = current_timestamp env\<rparr>)"
proof (intro conjI impI)
  assume a: "fetch_json env self ''honors.json'' w = (Inr (Some (JArr (pre @ JObj kvs # post))), w1) \<and>
    sync_honors env self w = (Inr n, w') \<and>
    (\<forall>kvs'. JObj kvs' \<in> set post \<longrightarrow>
       value_or_null kvs' ''id'' \<noteq> value_or_null kvs ''id'')"
  then have fetch: "fetch_json env self ''honors.json'' w = (Inr (Some (JArr (pre @ JObj kvs # post))), w1)"
    and ret: "sync_honors env self w = (Inr n, w')"
    and last: "\<forall>kvs'. JObj kvs' \<in> set post \<longrightarrow>
       dict_get kvs' ''id'' JNull \<noteq> dict_get kvs ''id'' JNull"
    by (simp_all add: value_or_null_def dict_get_def)
  from ret have ret': "sync_stage ''honors.json'' ''honors'' honors (\<lambda>t d. d\<lparr>honors := t\<rparr>)
      (\<lambda>ts. insert_on_conflict honors_key (honors_insert ts) (honors_do_update ts) []) honors_tuple env self w = (Inr n, w')"
    by (simp add: sync_honors_stage honors_sql_eq)
  have "\<exists>r. honors_tuple (server self) (JObj kvs) = Inr r \<and>
      honors (working w') (server self, dict_get kvs ''id'' JNull) =
        Some (honors_insert (current_timestamp env) r)"
    by (rule sync_stage_last_wins [where upd = honors_do_update and ins = honors_insert and key = honors_key,
          OF _ _ _ _ fetch ret' last])
       (auto simp: honors_replace honors_tuple_def honors_key_def split: json.splits)
  then show "honors (working w') (server self, value_or_null kvs ''id'') =
      Some \<lparr>honors_seq = value_or_null kvs ''seq'',
            honors_group_id = value_or_null kvs ''groupId'',
            honors_honor_rarity = value_or_null kvs ''honorRarity'',
            honors_name = value_or_null kvs ''name'',
            honors_asset_bundle_name = value_or_null kvs ''assetbundleName'',
            honors_levels = Json (case map_of kvs ''levels'' of None \<Rightarrow> JArr [] | Some v \<Rightarrow> v),
            honors_updated_at = current_timestamp env\<rparr>"
    by (auto simp: honors_tuple_def honors_insert_def value_or_null_def dict_get_def)
next
  assume a: "fetch_json env self ''bondsHonors.json'' w = (Inr (Some (JArr (pre @ JObj kvs # post))), w1) \<and>
    sync_bonds_honors env self w = (Inr n, w') \<and>
    (\<forall>kvs'. JObj kvs' \<in> set post \<longrightarrow>
       value_or_null kvs' ''id'' \<noteq> value_or_null kvs ''id'')"
  then have fetch: "fetch_json env self ''bondsHonors.json'' w = (Inr (Some (JArr (pre @ JObj kvs # post))), w1)"
    and ret: "sync_bonds_honors env self w = (Inr n, w')"
    and last: "\<forall>kvs'. JObj kvs' \<in> set post \<longrightarrow>
       dict_get kvs' ''id'' JNull \<noteq> dict_get kvs ''id'' JNull"
    by (simp_all add: value_or_null_def dict_get_def)
  from ret have ret': "sync_stage ''bondsHonors.json'' ''bonds_honors'' bonds_honors (\<lambda>t d. d\<lparr>bonds_honors := t\<rparr>)
      (\<lambda>ts. insert_on_conflict bonds_honors_key (bonds_honors_insert ts) (bonds_honors_do_update ts) []) bonds_honors_tuple env self w = (Inr n, w')"
    by (simp add: sync_bonds_honors_stage bonds_honors_sql_eq)
  have "\<exists>r. bonds_honors_tuple (server self) (JObj kvs) = Inr r \<and>
      bonds_honors (working w') (server self, dict_get kvs ''id'' JNull) =
        Some (bonds_honors_insert (current_timestamp env) r)"
    by (rule sync_stage_last_wins [where upd = bonds_honors_do_update and ins = bonds_honors_insert and key = bonds_honors_key,
          OF _ _ _ _ fetch ret' last])
       (auto simp: bonds_honors_replace bonds_honors_tuple_def bonds_honors_key_def split: json.splits)
  then show "bonds_honors (working w') (server self, value_or_null kvs ''id'') =
      Some \<lparr>bonds_seq = value_or_null kvs ''seq'',
            bonds_bonds_group_id = value_or_null kvs ''bondsGroupId'',
            bonds_game_character_unit_id1 = value_or_null kvs ''gameCharacterUnitId1'',
            bonds_game_character_unit_id2 = value_or_null kvs ''gameCharacterUnitId2'',
            bonds_honor_rarity = value_or_null kvs ''honorRarity'',
            bonds_name = value_or_null kvs ''name'',
            bonds_description = value_or_null kvs ''description'',
            bonds_levels = Json (case map_of kvs ''levels'' of None \<Rightarrow> JArr [] | Some v \<Rightarrow> v),
            bonds_updated_at = current_timestamp env\<rparr>"
    by (auto simp: bonds_honors_tuple_def bonds_honors_insert_def value_or_null_def dict_get_def)
next
  assume a: "fetch_json env self ''honorGroups.json'' w = (Inr (Some (JArr (pre @ JObj kvs # post))), w1) \<and>
    sync_honor_groups env self w = (Inr n, w') \<and>
    (\<forall>kvs'. JObj kvs' \<in> set post \<longrightarrow>
       value_or_null kvs' ''id'' \<noteq> value_or_null kvs ''id'')"
  then have fetch: "fetch_json env self ''honorGroups.json'' w = (Inr (Some (JArr (pre @ JObj kvs # post))), w1)"
    and ret: "sync_honor_groups env self w = (Inr n, w')"
    and last: "\<forall>kvs'. JObj kvs' \<in> set post \<longrightarrow>
       dict_get kvs' ''id'' JNull \<noteq> dict_get kvs ''id'' JNull"
    by (simp_all add: value_or_null_def dict_get_def)
  from ret have ret': "sync_stage ''honorGroups.json'' ''honor_groups'' honor_groups (\<lambda>t d. d\<lparr>honor_groups := t\<rparr>)
      (\<lambda>ts. insert_on_conflict honor_groups_key (honor_groups_insert ts) (honor_groups_do_update ts) []) honor_groups_tuple env self w = (Inr n, w')"
    by (simp add: sync_honor_groups_stage honor_groups_sql_eq)
  have "\<exists>r. honor_groups_tuple (server self) (JObj kvs) = Inr r \<and>
      honor_groups (working w') (server self, dict_get kvs ''id'' JNull) =
        Some (honor_groups_insert (current_timestamp env) r)"
    by (rule sync_stage_last_wins [where upd = honor_groups_do_update and ins = honor_groups_insert and key = honor_groups_key,
          OF _ _ _ _ fetch ret' last])
       (auto simp: honor_groups_replace honor_groups_tuple_def honor_groups_key_def split: json.splits)
  then show "honor_groups (working w') (server self, value_or_null kvs ''id'') =
      Some \<lparr>groups_name = value_or_null kvs ''name'',
            groups_honor_type = value_or_null kvs ''honorType'',
            groups_background_asset_bundle_name = value_or_null kvs ''backgroundAssetbundleName'',
            groups_updated_at = current_timestamp env\<rparr>"
    by (auto simp: honor_groups_tuple_def honor_groups_insert_def value_or_null_def dict_get_def)
qed

theorem resync_overwrites_witness:
  "honors (working resynced_world) (''jp'', JInt 1) =
     Some \<lparr>honors_seq = JNull, honors_group_id = JNull, honors_honor_rarity = JNull,
           honors_name = JStr ''A2'', honors_asset_bundle_name = JNull,
           honors_levels = Json (JArr []), honors_updated_at = 9\<rparr>"
  using resync_overwrites [of sparse_env example_syncer stored_world "[]"
      "[(''id'', JInt 1), (''name'', JStr ''A2'')]" "[]"
      "stored_world\<lparr>trace :=
        [HttpGet ''https://raw.githubusercontent.com/Team-Haruki/haruki-sekai-master/main/master/honors.json'']\<rparr>"
      1 resynced_world]
    sparse_fetch sparse_stage
  by (simp add: value_or_null_def example_syncer_def sparse_env_def)

text \<open>
  The claim as the specification words it fails on \<^verbatim>\<open>levels\<close>: the stored honor had a
  level, the new object has no \<^verbatim>\<open>levels\<close> key, and after the sync the column holds
  the empty array, which is neither null nor the previous value.
\<close>

theorem resync_levels_counterexample:
  "map_option honors_levels (honors (working stored_world) (''jp'', JInt 1)) =
     Some (Json (JArr [JObj [(''level'', JInt 1)]])) \<and>
   map_option honors_levels
     (honors (working (snd (sync_honors sparse_env example_syncer stored_world))) (''jp'', JInt 1)) =
     Some (Json (JArr [])) \<and>
   Json (JArr []) \<noteq> Json JNull"
  by (simp add: sync_honors_def sparse_env_def stored_world_def stored_db_def eval_defs
      honors_do_update_def paginate_small)

end
